theory Spec2Isabelle
  imports Main "HOL-Library.AList" "HOL-Library.Word"
begin

section \<open>Go strings\<close>

text \<open>
  A Go string is a sequence of bytes, here a \<open>string\<close> (a list of 8-bit characters).
  The functions of package \<open>strings\<close> that the program calls are written out below
  after their documented behaviour.
\<close>

definition HasPrefix :: "string \<Rightarrow> string \<Rightarrow> bool" where
  "HasPrefix s pre = (length pre \<le> length s \<and> take (length pre) s = pre)"

definition HasSuffix :: "string \<Rightarrow> string \<Rightarrow> bool" where
  "HasSuffix s suf = (length suf \<le> length s \<and> drop (length s - length suf) s = suf)"

definition TrimSuffix :: "string \<Rightarrow> string \<Rightarrow> string" where
  "TrimSuffix s suf = (if HasSuffix s suf then take (length s - length suf) s else s)"

section \<open>DNS loop detector\<close>

text \<open>
  The part of \<open>dns.Msg\<close> that the detector reads is its question section; a question
  carries a name, a 16-bit type and a 16-bit class.
\<close>

record question =
  Name :: string
  Qtype :: "16 word"
  Qclass :: "16 word"

record msg =
  Question :: "question list"

definition loopTestDomain :: string where
  "loopTestDomain = ''.test''"

definition TypeTXT :: "16 word" where
  "TypeTXT = 16"

definition ClassINET :: "16 word" where
  "ClassINET = 1"

definition loopTestQtype :: "16 word" where
  "loopTestQtype = TypeTXT"

text \<open>
  \<open>dns.IsFqdn\<close> and \<open>dns.Fqdn\<close> of the DNS library: a name is fully qualified when it
  ends in a dot that is not escaped, that is, preceded by an even number of backslashes.
\<close>

definition IsFqdn :: "string \<Rightarrow> bool" where
  "IsFqdn s = (s \<noteq> [] \<and> last s = CHR ''.'' \<and>
     even (length (takeWhile (\<lambda>c. c = CHR 0x5C) (rev (butlast s)))))"

definition Fqdn :: "string \<Rightarrow> string" where
  "Fqdn s = (if IsFqdn s then s else s @ ''.'')"

text \<open>\<open>msg.SetQuestion(z, t)\<close>: one question of class IN.\<close>

definition SetQuestion :: "string \<Rightarrow> 16 word \<Rightarrow> msg" where
  "SetQuestion z t = \<lparr>Question = [\<lparr>Name = z, Qtype = t, Qclass = ClassINET\<rparr>]\<rparr>"

definition loopTestMsg :: "string \<Rightarrow> msg" where
  "loopTestMsg uid = SetQuestion (Fqdn (uid @ loopTestDomain)) loopTestQtype"

text \<open>
  The state of \<open>prog\<close> that the detector uses: the loop table \<open>p.loop\<close>, a Go map from
  upstream UID to bool kept as an association list with unique keys, and the configured
  upstreams \<open>p.cfg.Upstream\<close>. The type of an upstream configuration and its method
  \<open>UID()\<close> are parameters.
\<close>

record 'uc prog =
  loop :: "(string \<times> bool) list"
  cfg_Upstream :: "'uc list"

text \<open>Reading a Go map of bools at a missing key yields \<open>false\<close>.\<close>

definition isLoop :: "('uc \<Rightarrow> string) \<Rightarrow> 'uc prog \<Rightarrow> 'uc \<Rightarrow> bool" where
  "isLoop UID p uc = (case map_of (loop p) (UID uc) of Some b \<Rightarrow> b | None \<Rightarrow> False)"

text \<open>
  \<open>detectLoop\<close>: in \<open>if _, loop := p.loop[uid]; loop\<close> the variable \<open>loop\<close> is the
  presence of the key, so a present key is set to \<open>true\<close> and an absent key is not added.
\<close>

definition detectLoop :: "'uc prog \<Rightarrow> msg \<Rightarrow> 'uc prog" where
  "detectLoop p m =
     (if length (Question m) \<noteq> 1 then p
      else let q = hd (Question m) in
        if Qtype q \<noteq> loopTestQtype then p
        else let unFQDNname = TrimSuffix (Name q) ''.'';
                 uid = TrimSuffix unFQDNname loopTestDomain
             in (case map_of (loop p) uid of
                   Some _ \<Rightarrow> p\<lparr>loop := AList.update uid True (loop p)\<rparr>
                 | None \<Rightarrow> p))"

text \<open>
  \<open>checkDnsLoop\<close>, as far as the state of \<open>prog\<close> goes: the first loop stores
  \<open>false\<close> for the UID of every configured upstream (\<open>seedLoop\<close>). The second loop
  reads the keys of the table, builds a resolver for each and sends \<open>loopTestMsg uid\<close>
  through it, skipping the key when no resolver can be built; it writes nothing to the
  table, and which probes leave the process is not part of this model.
\<close>

definition seedLoop :: "('uc \<Rightarrow> string) \<Rightarrow> (string \<times> bool) list \<Rightarrow> 'uc list \<Rightarrow> (string \<times> bool) list" where
  "seedLoop UID l ucs = foldl (\<lambda>l uc. AList.update (UID uc) False l) l ucs"

definition checkDnsLoop :: "('uc \<Rightarrow> string) \<Rightarrow> 'uc prog \<Rightarrow> 'uc prog" where
  "checkDnsLoop UID p = p\<lparr>loop := seedLoop UID (loop p) (cfg_Upstream p)\<rparr>"

text \<open>A run of the detector: cycles of \<open>checkDnsLoop\<close> and inbound queries, in any order.\<close>

datatype event = Cycle | Inbound msg

fun step :: "('uc \<Rightarrow> string) \<Rightarrow> 'uc prog \<Rightarrow> event \<Rightarrow> 'uc prog" where
  "step UID p Cycle = checkDnsLoop UID p"
| "step UID p (Inbound m) = detectLoop p m"

definition run :: "('uc \<Rightarrow> string) \<Rightarrow> 'uc prog \<Rightarrow> event list \<Rightarrow> 'uc prog" where
  "run UID p es = foldl (step UID) p es"

section \<open>DoH resolver\<close>

definition dohMacHeader :: string where "dohMacHeader = ''x-cd-mac''"
definition dohIPHeader :: string where "dohIPHeader = ''x-cd-ip''"
definition dohHostHeader :: string where "dohHostHeader = ''x-cd-host''"
definition dohOsHeader :: string where "dohOsHeader = ''x-cd-os''"
definition headerApplicationDNS :: string where "headerApplicationDNS = ''application/dns-message''"

text \<open>A Go \<open>map[string]string\<close> literal, and indexing it: a missing key reads as \<open>""\<close>.\<close>

definition index_str :: "(string \<times> string) list \<Rightarrow> string \<Rightarrow> string" where
  "index_str m k = (case map_of m k of Some v \<Rightarrow> v | None \<Rightarrow> [])"

definition EncodeOsNameMap :: "(string \<times> string) list" where
  "EncodeOsNameMap =
     [(''windows'', ''1''), (''darwin'', ''2''), (''linux'', ''3''), (''freebsd'', ''4'')]"

definition EncodeArchNameMap :: "(string \<times> string) list" where
  "EncodeArchNameMap =
     [(''amd64'', ''1''), (''arm64'', ''2''), (''arm'', ''3''), (''386'', ''4''),
      (''mips'', ''5''), (''mipsle'', ''6''), (''mips64'', ''7'')]"

fun Join :: "string list \<Rightarrow> string \<Rightarrow> string" where
  "Join [] sep = []"
| "Join [x] sep = x"
| "Join (x # y # ys) sep = x @ sep @ Join (y # ys) sep"

text \<open>
  The platform the process runs on: \<open>runtime.GOOS\<close>, \<open>runtime.GOARCH\<close> and the
  distribution reported by \<open>osinfo.New()\<close>. \<open>dohOsHeaderValue\<close> computes its value once
  and returns it on every call.
\<close>

record platform =
  GOOS :: string
  GOARCH :: string
  Dist :: string

definition dohOsHeaderValue :: "platform \<Rightarrow> string" where
  "dohOsHeaderValue pf =
     Join [index_str EncodeOsNameMap (GOOS pf), index_str EncodeArchNameMap (GOARCH pf), Dist pf] ''-''"

record ClientInfo =
  Mac :: string
  IP :: string
  Hostname :: string
  Self :: bool

text \<open>
  A request header is a map from header name to value; \<open>Header.Set\<close> replaces the value
  stored under the name. The call context is modelled by the client info it carries, if
  any (\<open>None\<close> when the context has no value under \<open>ClientInfoCtxKey\<close> or a nil pointer).
  \<open>addHeader\<close> returns the new header and whether it logs the header (\<open>printed\<close>).
\<close>

type_synonym header = "string \<rightharpoonup> string"

definition Header_Set :: "header \<Rightarrow> string \<Rightarrow> string \<Rightarrow> header" where
  "Header_Set h k v = h(k \<mapsto> v)"

definition addHeader :: "platform \<Rightarrow> ClientInfo option \<Rightarrow> header \<Rightarrow> bool \<Rightarrow> header \<times> bool" where
  "addHeader pf ctx h0 sendClientInfo =
     (let h1 = Header_Set h0 ''Content-Type'' headerApplicationDNS;
          h2 = Header_Set h1 ''Accept'' headerApplicationDNS;
          h3 = Header_Set h2 dohOsHeader (dohOsHeaderValue pf)
      in if sendClientInfo then
           (case ctx of
              Some ci \<Rightarrow>
                (let printed = (Mac ci \<noteq> [] \<or> IP ci \<noteq> [] \<or> Hostname ci \<noteq> []);
                     h4 = (if Mac ci \<noteq> [] then Header_Set h3 dohMacHeader (Mac ci) else h3);
                     h5 = (if IP ci \<noteq> [] then Header_Set h4 dohIPHeader (IP ci) else h4);
                     h6 = (if Hostname ci \<noteq> [] then Header_Set h5 dohHostHeader (Hostname ci) else h5);
                     h7 = (if Self ci then Header_Set h6 dohOsHeader (dohOsHeaderValue pf) else h6)
                 in (h7, printed))
            | None \<Rightarrow> (h3, False))
         else (h3, False))"

text \<open>
  \<open>dohResolver.Resolve\<close>. What lies outside the resolver is a parameter, the record
  \<open>world\<close>: packing and unpacking of DNS messages, the base64 encoding, the URL of the
  endpoint with the \<open>dns\<close> query parameter added, the construction of the request, the two
  transport getters of the upstream configuration (\<open>doh3Transport\<close> yields \<open>None\<close> for a
  nil round-tripper), whether a transport implements \<open>io.Closer\<close>, and the HTTP round
  trip itself. A response carries its status code and the outcome of reading its body.
  Beside its result, \<open>Resolve\<close> returns the trace of what it did to the network: the
  round trips performed and the transports closed.
\<close>

record request =
  Method :: string
  URL :: string
  Header :: header

record response =
  StatusCode :: int
  Body :: "string + string"

datatype resolve_error =
    PackFailed string
  | CouldNotCreateRequest string
  | DoH3NotSupported
  | CouldNotPerformRequest string
  | CouldNotReadMessage string
  | WrongResponse string int
  | UnpackFailed string

datatype 't effect = HttpDo 't request | TransportClose 't

record 't world =
  Pack :: "msg \<Rightarrow> string + string"
  EncodeToString :: "string \<Rightarrow> string"
  endpointWithQuery :: "string \<Rightarrow> string \<Rightarrow> string"
  NewRequestWithContext :: "string \<Rightarrow> string \<Rightarrow> string + request"
  dohTransport :: "16 word \<Rightarrow> 't"
  doh3Transport :: "16 word \<Rightarrow> 't option"
  isCloser :: "'t \<Rightarrow> bool"
  Do :: "'t \<Rightarrow> request \<Rightarrow> string + response"
  Unpack :: "string \<Rightarrow> string + msg"

record dohResolver =
  endpoint :: string
  isDoH3 :: bool
  sendClientInfo :: bool

definition StatusOK :: int where
  "StatusOK = 200"

definition MethodGet :: string where
  "MethodGet = ''GET''"

definition Resolve ::
  "platform \<Rightarrow> 't world \<Rightarrow> dohResolver \<Rightarrow> ClientInfo option \<Rightarrow> msg
     \<Rightarrow> (resolve_error + msg) \<times> 't effect list" where
  "Resolve pf w r ctx m =
     (case Pack w m of
        Inl err \<Rightarrow> (Inl (PackFailed err), [])
      | Inr data \<Rightarrow>
          (let enc = EncodeToString w data;
               url = endpointWithQuery w (endpoint r) enc
           in case NewRequestWithContext w MethodGet url of
                Inl err \<Rightarrow> (Inl (CouldNotCreateRequest err), [])
              | Inr req0 \<Rightarrow>
                  (let req = req0\<lparr>Header := fst (addHeader pf ctx (Header req0) (sendClientInfo r))\<rparr>;
                       dnsTyp = (if length (Question m) > 0 then Qtype (hd (Question m)) else 0);
                       transport =
                         (if isDoH3 r then doh3Transport w dnsTyp
                          else Some (dohTransport w dnsTyp))
                   in case transport of
                        None \<Rightarrow> (Inl DoH3NotSupported, [])
                      | Some t \<Rightarrow>
                          (case Do w t req of
                             Inl err \<Rightarrow>
                               (Inl (CouldNotPerformRequest err),
                                HttpDo t req #
                                  (if isDoH3 r \<and> isCloser w t then [TransportClose t] else []))
                           | Inr resp \<Rightarrow>
                               (case Body resp of
                                  Inl err \<Rightarrow> (Inl (CouldNotReadMessage err), [HttpDo t req])
                                | Inr buf \<Rightarrow>
                                    if StatusCode resp \<noteq> StatusOK
                                    then (Inl (WrongResponse buf (StatusCode resp)), [HttpDo t req])
                                    else (case Unpack w buf of
                                            Inl err \<Rightarrow> (Inl (UnpackFailed err), [HttpDo t req])
                                          | Inr answer \<Rightarrow> (Inr answer, [HttpDo t req])))))))"

text \<open>
  A sample platform and a sample world for evaluating \<open>Resolve\<close>: packing fails, as
  in the DNS library, when the name of a question is not fully qualified; transports are
  numbered, the DoH3 transport is missing, and the server answers every request with the
  given status and the body \<open>body\<close>.
\<close>

definition linux_amd64 :: platform where
  "linux_amd64 = \<lparr>GOOS = ''linux'', GOARCH = ''amd64'', Dist = ''debian''\<rparr>"

definition sample_world :: "int \<Rightarrow> nat world" where
  "sample_world status =
     \<lparr>Pack = (\<lambda>m. if list_ex (\<lambda>q. Name q \<noteq> [] \<and> \<not> IsFqdn (Name q)) (Question m)
                   then Inl ''dns: domain must be fully qualified'' else Inr ''wire''),
      EncodeToString = (\<lambda>d. d),
      endpointWithQuery = (\<lambda>e enc. e @ ''?dns='' @ enc),
      NewRequestWithContext = (\<lambda>meth u. Inr \<lparr>Method = meth, URL = u, Header = Map.empty\<rparr>),
      dohTransport = (\<lambda>t. 1),
      doh3Transport = (\<lambda>t. None),
      isCloser = (\<lambda>t. True),
      Do = (\<lambda>t rq. Inr \<lparr>StatusCode = status, Body = Inr ''body''\<rparr>),
      Unpack = (\<lambda>b. Inr \<lparr>Question = []\<rparr>)\<rparr>"

section \<open>More Go strings\<close>

text \<open>
  \<open>strings.Index\<close> and \<open>strings.Cut\<close>: the text before and after the first occurrence of
  the separator, and whether it occurs.
\<close>

fun Index :: "string \<Rightarrow> string \<Rightarrow> nat option" where
  "Index [] sep = (if sep = [] then Some 0 else None)"
| "Index (c # cs) sep =
     (if HasPrefix (c # cs) sep then Some 0 else map_option Suc (Index cs sep))"

definition Cut :: "string \<Rightarrow> string \<Rightarrow> string \<times> string \<times> bool" where
  "Cut s sep =
     (case Index s sep of
        Some i \<Rightarrow> (take i s, drop (i + length sep) s, True)
      | None \<Rightarrow> (s, [], False))"

text \<open>
  \<open>strings.TrimRight\<close> and \<open>strings.Trim\<close> with a cutset of ASCII characters remove the
  trailing (and leading) bytes that belong to the cutset.
\<close>

definition TrimRight :: "string \<Rightarrow> string \<Rightarrow> string" where
  "TrimRight s cutset = rev (dropWhile (\<lambda>c. c \<in> set cutset) (rev s))"

definition TrimLeft :: "string \<Rightarrow> string \<Rightarrow> string" where
  "TrimLeft s cutset = dropWhile (\<lambda>c. c \<in> set cutset) s"

definition Trim :: "string \<Rightarrow> string \<Rightarrow> string" where
  "Trim s cutset = TrimRight (TrimLeft s cutset) cutset"

text \<open>
  \<open>strings.Fields\<close> and \<open>bytes.Fields\<close> split around runs of white space as
  \<open>unicode.IsSpace\<close> defines it: the six ASCII characters tab, line feed, vertical tab,
  form feed, carriage return and space, and the code points U+0085, U+00A0, U+1680,
  U+2000 to U+200A, U+2028, U+2029, U+202F, U+205F and U+3000, which appear in a string
  as their UTF-8 encodings. \<open>space_width s\<close> is the number of bytes of the white space
  character at the head of \<open>s\<close>, or 0. The first byte of each of these encodings is never
  a continuation byte, so an occurrence always starts a character.
\<close>

definition asciiSpace :: "char \<Rightarrow> bool" where
  "asciiSpace c = (c \<in> {CHR 0x09, CHR 0x0A, CHR 0x0B, CHR 0x0C, CHR 0x0D, CHR 0x20})"

definition space_width :: "string \<Rightarrow> nat" where
  "space_width s =
     (case s of
        [] \<Rightarrow> 0
      | c # cs \<Rightarrow>
          if asciiSpace c then 1
          else if c = CHR 0xC2 then
            (case cs of d # _ \<Rightarrow> if d = CHR 0x85 \<or> d = CHR 0xA0 then 2 else 0 | [] \<Rightarrow> 0)
          else if c = CHR 0xE1 then (if HasPrefix cs [CHR 0x9A, CHR 0x80] then 3 else 0)
          else if c = CHR 0xE2 then
            (case cs of
               d # e # _ \<Rightarrow>
                 if d = CHR 0x80 \<and>
                    ((of_char (CHR 0x80) :: nat) \<le> of_char e \<and> (of_char e :: nat) \<le> of_char (CHR 0x8A)
                     \<or> e = CHR 0xA8 \<or> e = CHR 0xA9 \<or> e = CHR 0xAF)
                 then 3
                 else if d = CHR 0x81 \<and> e = CHR 0x9F then 3 else 0
             | _ \<Rightarrow> 0)
          else if c = CHR 0xE3 then (if HasPrefix cs [CHR 0x80, CHR 0x80] then 3 else 0)
          else 0)"

text \<open>\<open>fields_from cur s\<close>: the fields of \<open>s\<close>, where \<open>cur\<close> holds the bytes of the field
  being read, last byte first.\<close>

definition flush :: "string \<Rightarrow> string list" where
  "flush cur = (if cur = [] then [] else [rev cur])"

function fields_from :: "string \<Rightarrow> string \<Rightarrow> string list" where
  "fields_from cur [] = flush cur"
| "fields_from cur (c # cs) =
     (if space_width (c # cs) > 0
      then flush cur @ fields_from [] (drop (space_width (c # cs)) (c # cs))
      else fields_from (c # cur) cs)"
  by pat_completeness auto
termination
  by (relation "measure (\<lambda>(cur, s). length s)") auto

definition Fields :: "string \<Rightarrow> string list" where
  "Fields s = fields_from [] s"

text \<open>
  Three functions of the Go library are parameters of the model: whether \<open>net.ParseMAC\<close>
  and \<open>net.ParseIP\<close> accept a string, and \<open>strings.ToLower\<close>.
\<close>

record golib =
  ParseMAC_ok :: "string \<Rightarrow> bool"
  ParseIP_ok :: "string \<Rightarrow> bool"
  ToLower :: "string \<Rightarrow> string"

section \<open>Client info: the DHCP lease files\<close>

text \<open>
  The four tables of the DHCP source. \<open>ip\<close> maps a MAC to an IP and \<open>mac\<close> maps an IP
  to a MAC, as in the source; \<open>sync.Map.Store\<close> is a map update.
\<close>

record dhcp =
  mac2name :: "string \<rightharpoonup> string"
  ip2name :: "string \<rightharpoonup> string"
  ip :: "string \<rightharpoonup> string"
  mac :: "string \<rightharpoonup> string"

definition load_str :: "(string \<rightharpoonup> string) \<Rightarrow> string \<Rightarrow> string" where
  "load_str m k = (case m k of None \<Rightarrow> [] | Some v \<Rightarrow> v)"

definition dhcp_LookupIP :: "dhcp \<Rightarrow> string \<Rightarrow> string" where
  "dhcp_LookupIP d macv = load_str (ip d) macv"

definition dhcp_LookupMac :: "dhcp \<Rightarrow> string \<Rightarrow> string" where
  "dhcp_LookupMac d ipv = load_str (mac d) ipv"

definition dhcp_LookupHostnameByIP :: "dhcp \<Rightarrow> string \<Rightarrow> string" where
  "dhcp_LookupHostnameByIP d ipv = load_str (ip2name d) ipv"

definition dhcp_LookupHostnameByMac :: "dhcp \<Rightarrow> string \<Rightarrow> string" where
  "dhcp_LookupHostnameByMac d macv = load_str (mac2name d) macv"

definition normalizeIP :: "string \<Rightarrow> string" where
  "normalizeIP inp = (case Cut inp ''%'' of (ipv, _, found) \<Rightarrow> if found then ipv else inp)"

definition normalizeHostname :: "string \<Rightarrow> string" where
  "normalizeHostname name = (case Cut name ''.'' of (before, _, found) \<Rightarrow> if found then before else name)"

text \<open>
  \<open>dnsmasqReadClientInfoReader\<close>: the reader is given as the lines that the line scanner
  yields; \<open>dnsmasq_line\<close> is the function applied to each line.
\<close>

definition dnsmasq_line :: "golib \<Rightarrow> dhcp \<Rightarrow> string \<Rightarrow> dhcp" where
  "dnsmasq_line lib d line =
     (let fields = Fields line in
      if length fields < 4 then d
      else let macv = fields ! 1 in
        if \<not> ParseMAC_ok lib macv then d
        else let ip0 = normalizeIP (fields ! 2);
                 ipv = (if \<not> ParseIP_ok lib ip0 then [] else ip0);
                 d1 = d\<lparr>mac := (mac d)(ipv \<mapsto> macv)\<rparr>;
                 d2 = d1\<lparr>ip := (ip d1)(macv \<mapsto> ipv)\<rparr>;
                 hostname = fields ! 3
             in if hostname = ''*'' then d2
                else let name = normalizeHostname hostname;
                         d3 = d2\<lparr>mac2name := (mac2name d2)(macv \<mapsto> name)\<rparr>
                     in d3\<lparr>ip2name := (ip2name d3)(ipv \<mapsto> name)\<rparr>)"

definition dnsmasqReadClientInfoReader :: "golib \<Rightarrow> dhcp \<Rightarrow> string list \<Rightarrow> dhcp" where
  "dnsmasqReadClientInfoReader lib d lines = foldl (dnsmasq_line lib) d lines"

text \<open>
  \<open>iscDHCPReadClientInfoReader\<close>: the loop carries the variables \<open>ip\<close>, \<open>mac\<close> and
  \<open>hostname\<close> from line to line; \<open>isc_line\<close> is the body of the loop.
\<close>

type_synonym isc_state = "dhcp \<times> string \<times> string \<times> string"

fun isc_line :: "golib \<Rightarrow> isc_state \<Rightarrow> string \<Rightarrow> isc_state" where
  "isc_line lib (d, ipv, macv, hostname) line =
     (if HasPrefix line ''}'' then
        (let d1 = d\<lparr>mac := (mac d)(ipv \<mapsto> macv)\<rparr>;
             d2 = d1\<lparr>ip := (ip d1)(macv \<mapsto> ipv)\<rparr>
         in if hostname \<noteq> [] \<and> hostname \<noteq> ''*'' then
              (let name = normalizeHostname hostname;
                   d3 = d2\<lparr>mac2name := (mac2name d2)(macv \<mapsto> name)\<rparr>;
                   d4 = d3\<lparr>ip2name := (ip2name d3)(ipv \<mapsto> hostname)\<rparr>
               in (d4, [], [], []))
            else (d2, ipv, macv, hostname))
      else let fields = Fields line in
        if length fields < 2 then (d, ipv, macv, hostname)
        else if fields ! 0 = ''lease'' then
          (let ip0 = normalizeIP (ToLower lib (fields ! 1))
           in (d, if \<not> ParseIP_ok lib ip0 then [] else ip0, macv, hostname))
        else if fields ! 0 = ''hardware'' then
          (if length fields \<ge> 3 then
             (let mac0 = ToLower lib (TrimRight (fields ! 2) '';'')
              in (d, ipv, if \<not> ParseMAC_ok lib mac0 then [] else mac0, hostname))
           else (d, ipv, macv, hostname))
        else if fields ! 0 = ''client-hostname'' then
          (d, ipv, macv, Trim (fields ! 1) [CHR 0x22, CHR '';''])
        else (d, ipv, macv, hostname))"

definition isc_run :: "golib \<Rightarrow> isc_state \<Rightarrow> string list \<Rightarrow> isc_state" where
  "isc_run lib st lines = foldl (isc_line lib) st lines"

definition iscDHCPReadClientInfoReader :: "golib \<Rightarrow> dhcp \<Rightarrow> string list \<Rightarrow> dhcp" where
  "iscDHCPReadClientInfoReader lib d lines = fst (isc_run lib (d, [], [], []) lines)"

text \<open>
  What a block of an ISC lease file declares, written down apart from the loop so that
  the loop can be compared with it. A lease declaration is a line of at least two fields
  whose first field is \<open>lease\<close>; a hardware declaration is a line of at least three
  fields whose first field is \<open>hardware\<close>; a client-hostname declaration is a line of
  at least two fields whose first field is \<open>client-hostname\<close>. \<open>lease_ip\<close> and
  \<open>hardware_mac\<close> are the address a declaration gives (empty when it does not parse).
  The IP of a block is the address of its last lease declaration, and the IP carried
  into the block when it has none; likewise its MAC.
\<close>

definition is_lease :: "string \<Rightarrow> bool" where
  "is_lease l = (2 \<le> length (Fields l) \<and> Fields l ! 0 = ''lease'')"

definition is_hardware :: "string \<Rightarrow> bool" where
  "is_hardware l = (3 \<le> length (Fields l) \<and> Fields l ! 0 = ''hardware'')"

definition is_client_hostname :: "string \<Rightarrow> bool" where
  "is_client_hostname l = (2 \<le> length (Fields l) \<and> Fields l ! 0 = ''client-hostname'')"

definition lease_ip :: "golib \<Rightarrow> string \<Rightarrow> string" where
  "lease_ip lib l =
     (let ip0 = normalizeIP (ToLower lib (Fields l ! 1))
      in if ParseIP_ok lib ip0 then ip0 else [])"

definition hardware_mac :: "golib \<Rightarrow> string \<Rightarrow> string" where
  "hardware_mac lib l =
     (let mac0 = ToLower lib (TrimRight (Fields l ! 2) '';'')
      in if ParseMAC_ok lib mac0 then mac0 else [])"

definition block_ip :: "golib \<Rightarrow> string \<Rightarrow> string list \<Rightarrow> string" where
  "block_ip lib carried block =
     (case rev (filter is_lease block) of [] \<Rightarrow> carried | l # _ \<Rightarrow> lease_ip lib l)"

definition block_mac :: "golib \<Rightarrow> string \<Rightarrow> string list \<Rightarrow> string" where
  "block_mac lib carried block =
     (case rev (filter is_hardware block) of [] \<Rightarrow> carried | l # _ \<Rightarrow> hardware_mac lib l)"

text \<open>
  A sample library for evaluating the readers: it accepts the six-group colon form of a
  MAC address with lower-case hexadecimal digits and the dotted form of an IPv4 address
  with up to three digits in each of its four parts, and it lowers ASCII letters.
\<close>

definition is_hex :: "char \<Rightarrow> bool" where
  "is_hex c = (c \<in> set ''0123456789abcdef'')"

definition is_digit :: "char \<Rightarrow> bool" where
  "is_digit c = (c \<in> set ''0123456789'')"

fun split_on :: "char \<Rightarrow> string \<Rightarrow> string list" where
  "split_on sep [] = [[]]"
| "split_on sep (c # cs) =
     (case split_on sep cs of
        [] \<Rightarrow> [[c]]
      | x # xs \<Rightarrow> if c = sep then [] # x # xs else (c # x) # xs)"

definition ascii_lower :: "char \<Rightarrow> char" where
  "ascii_lower c =
     (if (of_char (CHR ''A'') :: nat) \<le> of_char c \<and> (of_char c :: nat) \<le> of_char (CHR ''Z'')
      then char_of (of_char c + (32 :: nat)) else c)"

definition sample_lib :: golib where
  "sample_lib =
     \<lparr>ParseMAC_ok = (\<lambda>s. let gs = split_on (CHR '':'') s in
          length gs = 6 \<and> list_all (\<lambda>g. length g = 2 \<and> list_all is_hex g) gs),
      ParseIP_ok = (\<lambda>s. let gs = split_on (CHR ''.'') s in
          length gs = 4 \<and> list_all (\<lambda>g. 1 \<le> length g \<and> length g \<le> 3 \<and> list_all is_digit g) gs),
      ToLower = map ascii_lower\<rparr>"

section \<open>Client info: the table of discovery sources\<close>

text \<open>
  The discovery sources that \<open>Table.init\<close> can register: Merlin custom clients, the hosts
  file, the DHCP lease files, the ARP table, PTR lookup, mDNS and the virtual network
  interfaces (VPN clients). The table keeps one ordered list of sources for each kind of
  lookup.
\<close>

datatype source = Merlin | HostsFile | Dhcp | Arp | Ptr | Mdns | Vni

record Table =
  ipResolvers :: "source list"
  macResolvers :: "source list"
  hostnameResolvers :: "source list"
  refreshers :: "source list"

definition NewTable :: Table where
  "NewTable = \<lparr>ipResolvers = [], macResolvers = [], hostnameResolvers = [], refreshers = []\<rparr>"

text \<open>The discovery switches of the service configuration; a nil pointer means enabled.\<close>

record ServiceConfig =
  DiscoverDHCP :: "bool option"
  DiscoverARP :: "bool option"
  DiscoverMDNS :: "bool option"
  DiscoverPtr :: "bool option"
  DiscoverHosts :: "bool option"

definition discoverDHCP :: "ServiceConfig \<Rightarrow> bool" where
  "discoverDHCP cfg = (case DiscoverDHCP cfg of None \<Rightarrow> True | Some b \<Rightarrow> b)"

definition discoverARP :: "ServiceConfig \<Rightarrow> bool" where
  "discoverARP cfg = (case DiscoverARP cfg of None \<Rightarrow> True | Some b \<Rightarrow> b)"

definition discoverMDNS :: "ServiceConfig \<Rightarrow> bool" where
  "discoverMDNS cfg = (case DiscoverMDNS cfg of None \<Rightarrow> True | Some b \<Rightarrow> b)"

definition discoverPTR :: "ServiceConfig \<Rightarrow> bool" where
  "discoverPTR cfg = (case DiscoverPtr cfg of None \<Rightarrow> True | Some b \<Rightarrow> b)"

definition discoverHosts :: "ServiceConfig \<Rightarrow> bool" where
  "discoverHosts cfg = (case DiscoverHosts cfg of None \<Rightarrow> True | Some b \<Rightarrow> b)"

text \<open>
  \<open>Table.init\<close>. Its parameters beside the configuration: \<open>clientID\<close>, the custom
  client ID that \<open>controld.ParseRawUID\<close> finds in the UID of the table, and \<open>ok\<close>,
  which tells for each source whether its \<open>init\<close> or first \<open>refresh\<close> succeeded.
\<close>

definition Table_init :: "ServiceConfig \<Rightarrow> string \<Rightarrow> (source \<Rightarrow> bool) \<Rightarrow> Table \<Rightarrow> Table" where
  "Table_init cfg clientID ok t =
     (if clientID \<noteq> [] then
        t\<lparr>ipResolvers := ipResolvers t @ [Dhcp],
          macResolvers := macResolvers t @ [Dhcp],
          hostnameResolvers := hostnameResolvers t @ [Dhcp]\<rparr>
      else
        let t1 = (if (discoverDHCP cfg \<or> discoverARP cfg) \<and> ok Merlin
                  then t\<lparr>hostnameResolvers := hostnameResolvers t @ [Merlin],
                         refreshers := refreshers t @ [Merlin]\<rparr>
                  else t);
            t2 = (if discoverHosts cfg \<and> ok HostsFile
                  then t1\<lparr>hostnameResolvers := hostnameResolvers t1 @ [HostsFile],
                          refreshers := refreshers t1 @ [HostsFile]\<rparr>
                  else t1);
            t3 = (if discoverDHCP cfg \<and> ok Dhcp
                  then t2\<lparr>ipResolvers := ipResolvers t2 @ [Dhcp],
                          macResolvers := macResolvers t2 @ [Dhcp],
                          hostnameResolvers := hostnameResolvers t2 @ [Dhcp]\<rparr>
                  else t2);
            t4 = (if discoverARP cfg \<and> ok Arp
                  then t3\<lparr>ipResolvers := ipResolvers t3 @ [Arp],
                          macResolvers := macResolvers t3 @ [Arp],
                          refreshers := refreshers t3 @ [Arp]\<rparr>
                  else t3);
            t5 = (if discoverPTR cfg \<and> ok Ptr
                  then t4\<lparr>hostnameResolvers := hostnameResolvers t4 @ [Ptr],
                          refreshers := refreshers t4 @ [Ptr]\<rparr>
                  else t4);
            t6 = (if discoverMDNS cfg \<and> ok Mdns
                  then t5\<lparr>hostnameResolvers := hostnameResolvers t5 @ [Mdns]\<rparr>
                  else t5);
            t7 = (if discoverDHCP cfg \<or> discoverARP cfg
                  then t6\<lparr>hostnameResolvers := hostnameResolvers t6 @ [Vni]\<rparr>
                  else t6)
        in t7)"

text \<open>
  \<open>Table.LookupHostname\<close> on an initialised table. The methods \<open>LookupHostnameByIP\<close>
  and \<open>LookupHostnameByMac\<close> of the sources are the parameters \<open>byIP\<close> and \<open>byMac\<close>.
\<close>

fun lookupHostname_loop ::
  "(source \<Rightarrow> string \<Rightarrow> string) \<Rightarrow> (source \<Rightarrow> string \<Rightarrow> string) \<Rightarrow> source list \<Rightarrow> string \<Rightarrow> string \<Rightarrow> string" where
  "lookupHostname_loop byIP byMac [] ipv macv = []"
| "lookupHostname_loop byIP byMac (r # rs) ipv macv =
     (if byIP r ipv \<noteq> [] then byIP r ipv
      else if byMac r macv \<noteq> [] then byMac r macv
      else lookupHostname_loop byIP byMac rs ipv macv)"

definition LookupHostname ::
  "(source \<Rightarrow> string \<Rightarrow> string) \<Rightarrow> (source \<Rightarrow> string \<Rightarrow> string) \<Rightarrow> Table \<Rightarrow> string \<Rightarrow> string \<Rightarrow> string" where
  "LookupHostname byIP byMac t ipv macv = lookupHostname_loop byIP byMac (hostnameResolvers t) ipv macv"

text \<open>What one source answers for an IP and a MAC: by IP first, then by MAC.\<close>

definition source_hostname ::
  "(source \<Rightarrow> string \<Rightarrow> string) \<Rightarrow> (source \<Rightarrow> string \<Rightarrow> string) \<Rightarrow> source \<Rightarrow> string \<Rightarrow> string \<Rightarrow> string" where
  "source_hostname byIP byMac r ipv macv = (if byIP r ipv \<noteq> [] then byIP r ipv else byMac r macv)"

text \<open>
  A sample configuration with every switch unset, and sample sources in which Merlin and
  the hosts file each know a name for the address 192.168.1.10.
\<close>

definition default_service :: ServiceConfig where
  "default_service = \<lparr>DiscoverDHCP = None, DiscoverARP = None, DiscoverMDNS = None,
     DiscoverPtr = None, DiscoverHosts = None\<rparr>"

definition all_ok :: "source \<Rightarrow> bool" where
  "all_ok s = True"

definition sample_byIP :: "source \<Rightarrow> string \<Rightarrow> string" where
  "sample_byIP s ipv =
     (if ipv = ''192.168.1.10''
      then (case s of Merlin \<Rightarrow> ''custom-name'' | HostsFile \<Rightarrow> ''hosts-name'' | _ \<Rightarrow> [])
      else [])"

definition sample_byMac :: "source \<Rightarrow> string \<Rightarrow> string" where
  "sample_byMac s macv = []"

text \<open>A sample ISC lease block whose client host name carries a domain suffix.\<close>

definition sample_isc_lease :: "string list" where
  "sample_isc_lease =
     [''lease 192.168.1.10 {'',
      ''  hardware ethernet aa:bb:cc:dd:ee:ff;'',
      ''  client-hostname '' @ [CHR 0x22] @ ''host1.lan'' @ [CHR 0x22] @ '';'',
      ''}'']"

definition empty_dhcp :: dhcp where
  "empty_dhcp = \<lparr>mac2name = Map.empty, ip2name = Map.empty, ip = Map.empty, mac = Map.empty\<rparr>"

section \<open>Properties of the loop detector\<close>

lemma TrimSuffix_append: "TrimSuffix (s @ suf) suf = s"
  by (simp add: TrimSuffix_def HasSuffix_def)

lemma Fqdn_test: "Fqdn (uid @ loopTestDomain) = uid @ loopTestDomain @ ''.''"
  by (simp add: Fqdn_def IsFqdn_def loopTestDomain_def)

lemma detectLoop_keys: "map fst (loop (detectLoop p m)) = map fst (loop p)"
  by (auto simp: detectLoop_def Let_def update_keys dest!: map_of_SomeD split: option.splits)
     (metis fst_conv image_eqI)+

lemma detectLoop_keeps_True:
  "map_of (loop p) u = Some True \<Longrightarrow> map_of (loop (detectLoop p m)) u = Some True"
  by (simp add: detectLoop_def Let_def update_conv' split: option.splits)

lemma map_of_seedLoop:
  "map_of (seedLoop UID l ucs) k = (if k \<in> UID ` set ucs then Some False else map_of l k)"
  unfolding seedLoop_def
  by (induction ucs arbitrary: l rule: rev_induct) (auto simp: update_conv')

lemma run_Inbound_keeps_True:
  "map_of (loop p) u = Some True \<Longrightarrow> map_of (loop (run UID p (map Inbound ms))) u = Some True"
  unfolding run_def
  by (induction ms arbitrary: p) (simp_all add: detectLoop_keeps_True)

lemma seedLoop_keys: "uc \<in> set ucs \<Longrightarrow> UID uc \<in> fst ` set (seedLoop UID l ucs)"
  using map_of_seedLoop [of UID l ucs "UID uc"]
  by (metis (full_types) domI dom_map_of_conv_image_fst imageI)

lemma seedLoop_keeps_keys:
  "k \<in> fst ` set l \<Longrightarrow> k \<in> fst ` set (seedLoop UID l ucs)"
proof -
  assume "k \<in> fst ` set l"
  then have "map_of l k \<noteq> None"
    by (simp add: map_of_eq_None_iff)
  then have "map_of (seedLoop UID l ucs) k \<noteq> None"
    unfolding map_of_seedLoop by (cases "k \<in> UID ` set ucs") simp_all
  then show ?thesis
    by (simp add: map_of_eq_None_iff)
qed

lemma step_keeps_keys:
  "k \<in> fst ` set (loop p) \<Longrightarrow> k \<in> fst ` set (loop (step UID p e))"
proof (cases e)
  case Cycle
  assume "k \<in> fst ` set (loop p)"
  then show ?thesis
    using Cycle by (simp add: checkDnsLoop_def seedLoop_keeps_keys)
next
  case (Inbound m)
  assume "k \<in> fst ` set (loop p)"
  moreover have "fst ` set (loop (detectLoop p m)) = fst ` set (loop p)"
    using detectLoop_keys [of p m] by (metis set_map)
  ultimately show ?thesis
    using Inbound by simp
qed

lemma run_keeps_keys:
  "k \<in> fst ` set (loop p) \<Longrightarrow> k \<in> fst ` set (loop (run UID p es))"
  unfolding run_def
  by (induction es arbitrary: p) (simp_all add: step_keeps_keys)

lemma name_uid: "TrimSuffix (TrimSuffix (x @ ''.test.'') ''.'') loopTestDomain = x"
  using TrimSuffix_append [of "x @ ''.test''" "''.''"] TrimSuffix_append [of x "''.test''"]
  by (simp add: loopTestDomain_def)

text \<open>
  Claim C1 says that no operation of the detector sets a loop flag back to false. A cycle
  of \<open>checkDnsLoop\<close> does: with upstream \<open>u1\<close> configured and flagged, the flag is
  false after the next cycle.
\<close>

theorem loop_flag_counterexample:
  "map_of (loop \<lparr>loop = [(''u1'', True)], cfg_Upstream = [''u1'']\<rparr>) ''u1'' = Some True \<and>
   map_of (loop (run id \<lparr>loop = [(''u1'', True)], cfg_Upstream = [''u1'']\<rparr> [Cycle])) ''u1''
     = Some False"
  by (simp add: run_def checkDnsLoop_def seedLoop_def)

text \<open>
  Claim C1, amended: a flag that is true stays true across every sequence of inbound
  queries seen by \<open>detectLoop\<close>; a cycle of \<open>checkDnsLoop\<close> stores false for the UID of
  every configured upstream and leaves every other key of the table as it was.
\<close>

theorem loop_flag_kept_by_detectLoop_reset_by_cycle:
  "(map_of (loop p) u = Some True \<longrightarrow>
      map_of (loop (run UID p (map Inbound ms))) u = Some True) \<and>
   (uc \<in> set (cfg_Upstream p) \<longrightarrow>
      map_of (loop (run UID p [Cycle])) (UID uc) = Some False) \<and>
   (u \<notin> UID ` set (cfg_Upstream p) \<longrightarrow>
      map_of (loop (run UID p [Cycle])) u = map_of (loop p) u)"
proof -
  have "map_of (loop (run UID p [Cycle])) k =
          (if k \<in> UID ` set (cfg_Upstream p) then Some False else map_of (loop p) k)" for k
    by (simp add: run_def checkDnsLoop_def map_of_seedLoop)
  then show ?thesis
    by (simp add: run_Inbound_keeps_True)
qed

theorem loop_flag_kept_by_detectLoop_reset_by_cycle_witness:
  "map_of (loop \<lparr>loop = [(''u1'', True), (''u2'', True)], cfg_Upstream = [''u1'']\<rparr>) ''u2'' = Some True \<and>
   ''u1'' \<in> set (cfg_Upstream \<lparr>loop = [(''u1'', True), (''u2'', True)], cfg_Upstream = [''u1'']\<rparr>) \<and>
   ''u2'' \<notin> id ` set (cfg_Upstream \<lparr>loop = [(''u1'', True), (''u2'', True)], cfg_Upstream = [''u1'']\<rparr>) \<and>
   map_of (loop (run id \<lparr>loop = [(''u1'', True), (''u2'', True)], cfg_Upstream = [''u1'']\<rparr>
      (map Inbound [loopTestMsg ''u1'', loopTestMsg ''u3'']))) ''u2'' = Some True \<and>
   map_of (loop (run id \<lparr>loop = [(''u1'', True), (''u2'', True)], cfg_Upstream = [''u1'']\<rparr> [Cycle])) (id ''u1'')
      = Some False \<and>
   map_of (loop (run id \<lparr>loop = [(''u1'', True), (''u2'', True)], cfg_Upstream = [''u1'']\<rparr> [Cycle])) ''u2''
      = Some True"
  using loop_flag_kept_by_detectLoop_reset_by_cycle
    [of "\<lparr>loop = [(''u1'', True), (''u2'', True)], cfg_Upstream = [''u1'']\<rparr>" "''u2''" id
        "[loopTestMsg ''u1'', loopTestMsg ''u3'']" "''u1''"]
  by simp

text \<open>
  Claim C2: let upstream \<open>uc\<close> be configured when a cycle of \<open>checkDnsLoop\<close> runs. The
  probe for it, \<open>loopTestMsg (UID uc)\<close>, has as its only question the TXT question named
  \<open><UID>.test.\<close>; when, after any further inbound queries and cycles, \<open>detectLoop\<close> sees
  a message whose only question is a TXT question of that name, the table holds true for
  the UID and \<open>isLoop\<close> returns true for the upstream.
\<close>

theorem probe_observed_sets_loop:
  assumes "uc \<in> set (cfg_Upstream p)"
    and "p1 = checkDnsLoop UID p"
    and "p2 = run UID p1 es"
    and "Question m = [q]" and "Qtype q = TypeTXT" and "Name q = UID uc @ ''.test.''"
  shows "Question (loopTestMsg (UID uc)) =
           [\<lparr>Name = UID uc @ ''.test.'', Qtype = TypeTXT, Qclass = ClassINET\<rparr>] \<and>
         map_of (loop (detectLoop p2 m)) (UID uc) = Some True \<and>
         isLoop UID (detectLoop p2 m) uc"
proof -
  have key1: "UID uc \<in> fst ` set (loop p1)"
    using assms(1) by (simp add: assms(2) checkDnsLoop_def seedLoop_keys)
  then have key2: "UID uc \<in> fst ` set (loop p2)"
    unfolding assms(3) by (rule run_keeps_keys)
  then obtain b where b: "map_of (loop p2) (UID uc) = Some b"
    by (metis domD dom_map_of_conv_image_fst)
  have uid: "TrimSuffix (TrimSuffix (Name q) ''.'') loopTestDomain = UID uc"
    by (simp add: assms(6) name_uid)
  have set: "map_of (loop (detectLoop p2 m)) (UID uc) = Some True"
    using b by (simp add: detectLoop_def assms(4,5) loopTestQtype_def uid update_conv')
  have shape: "Question (loopTestMsg (UID uc)) =
           [\<lparr>Name = UID uc @ ''.test.'', Qtype = TypeTXT, Qclass = ClassINET\<rparr>]"
    using Fqdn_test [of "UID uc"]
    by (simp add: loopTestMsg_def SetQuestion_def loopTestDomain_def loopTestQtype_def)
  from shape set show ?thesis by (simp add: isLoop_def)
qed

theorem probe_observed_sets_loop_witness:
  "''u1'' \<in> set (cfg_Upstream \<lparr>loop = [], cfg_Upstream = [''u1'', ''u2'']\<rparr>) \<and>
   Question (loopTestMsg ''u1'') =
     [\<lparr>Name = ''u1.test.'', Qtype = TypeTXT, Qclass = ClassINET\<rparr>] \<and>
   isLoop id
     (detectLoop
        (run id (checkDnsLoop id \<lparr>loop = [], cfg_Upstream = [''u1'', ''u2'']\<rparr>)
           [Inbound (loopTestMsg ''zz''), Cycle])
        (loopTestMsg ''u1''))
     ''u1''"
  using probe_observed_sets_loop
    [of "''u1''" "\<lparr>loop = [], cfg_Upstream = [''u1'', ''u2'']\<rparr>"
        "checkDnsLoop id \<lparr>loop = [], cfg_Upstream = [''u1'', ''u2'']\<rparr>" id
        _ "[Inbound (loopTestMsg ''zz''), Cycle]" "loopTestMsg ''u1''"
        "\<lparr>Name = ''u1.test.'', Qtype = TypeTXT, Qclass = ClassINET\<rparr>", OF _ refl refl]
  by (simp add: loopTestMsg_def SetQuestion_def Fqdn_def IsFqdn_def loopTestDomain_def
      loopTestQtype_def)

text \<open>
  Claim C9: \<open>detectLoop\<close> never changes the keys of the loop table, and a message whose
  only question is a TXT question named \<open><x>.test.\<close> with \<open>x\<close> not a key of the table
  leaves the whole state unchanged.
\<close>

theorem detectLoop_keys_invariant:
  "map fst (loop (detectLoop p m)) = map fst (loop p) \<and>
   (Question m = [q] \<and> Qtype q = TypeTXT \<and> Name q = x @ ''.test.'' \<and> x \<notin> fst ` set (loop p)
      \<longrightarrow> detectLoop p m = p)"
proof -
  have "detectLoop p m = p"
    if "Question m = [q]" "Qtype q = TypeTXT" "Name q = x @ ''.test.''" "x \<notin> fst ` set (loop p)"
  proof -
    have uid: "TrimSuffix (TrimSuffix (Name q) ''.'') loopTestDomain = x"
      by (simp add: that(3) name_uid)
    have "map_of (loop p) x = None"
      using that(4) by (simp add: map_of_eq_None_iff)
    then show ?thesis
      by (simp add: detectLoop_def that(1,2) loopTestQtype_def uid)
  qed
  then show ?thesis by (simp add: detectLoop_keys)
qed

theorem detectLoop_keys_invariant_witness:
  "Question (loopTestMsg ''u9'') = [\<lparr>Name = ''u9.test.'', Qtype = TypeTXT, Qclass = ClassINET\<rparr>] \<and>
   ''u9'' \<notin> fst ` set (loop \<lparr>loop = [(''u1'', False)], cfg_Upstream = [''u1'']\<rparr>) \<and>
   detectLoop \<lparr>loop = [(''u1'', False)], cfg_Upstream = [''u1'']\<rparr> (loopTestMsg ''u9'')
     = \<lparr>loop = [(''u1'', False)], cfg_Upstream = [''u1'']\<rparr>"
  using detectLoop_keys_invariant
    [of "\<lparr>loop = [(''u1'', False)], cfg_Upstream = [''u1'']\<rparr>" "loopTestMsg ''u9''"
        "\<lparr>Name = ''u9.test.'', Qtype = TypeTXT, Qclass = ClassINET\<rparr>" "''u9''"]
  by (simp add: loopTestMsg_def SetQuestion_def Fqdn_def IsFqdn_def loopTestDomain_def
      loopTestQtype_def)

section \<open>Properties of the DoH resolver\<close>

lemma addHeader_os:
  "fst (addHeader pf ctx h sci) dohOsHeader = Some (dohOsHeaderValue pf)"
  by (simp add: addHeader_def Let_def Header_Set_def dohOsHeader_def dohMacHeader_def
      dohIPHeader_def dohHostHeader_def split: option.splits)

lemma dohOsHeaderValue_eq:
  "dohOsHeaderValue pf =
     index_str EncodeOsNameMap (GOOS pf) @ ''-'' @ index_str EncodeArchNameMap (GOARCH pf) @ ''-'' @ Dist pf"
  by (simp add: dohOsHeaderValue_def)

lemma Resolve_trace:
  "HttpDo t rq \<in> set (snd (Resolve pf w r ctx m)) \<Longrightarrow>
     Header rq dohOsHeader = Some (dohOsHeaderValue pf)"
  by (auto simp: Resolve_def Let_def addHeader_os split: sum.splits option.splits if_splits)

text \<open>
  Claim C3 says that the \<open>x-cd-os\<close> header is absent when \<open>SendClientInfo\<close> is false.
  With \<open>sendClientInfo = False\<close> the request that \<open>Resolve\<close> sends carries the header.
\<close>

theorem os_header_counterexample:
  "\<not> sendClientInfo \<lparr>endpoint = ''https://dns.example/q'', isDoH3 = False, sendClientInfo = False\<rparr> \<and>
   snd (Resolve linux_amd64 (sample_world 200)
          \<lparr>endpoint = ''https://dns.example/q'', isDoH3 = False, sendClientInfo = False\<rparr>
          None (loopTestMsg ''u1''))
     = [HttpDo 1 \<lparr>Method = ''GET'', URL = ''https://dns.example/q?dns=wire'',
          Header = [''Content-Type'' \<mapsto> ''application/dns-message'',
                    ''Accept'' \<mapsto> ''application/dns-message'',
                    ''x-cd-os'' \<mapsto> ''3-1-debian'']\<rparr>] \<and>
   fst (addHeader linux_amd64 None Map.empty False) dohOsHeader = Some ''3-1-debian''"
  by (simp add: Resolve_def sample_world_def loopTestMsg_def SetQuestion_def Fqdn_def IsFqdn_def
      loopTestDomain_def addHeader_def
      Header_Set_def dohOsHeader_def headerApplicationDNS_def dohOsHeaderValue_def
      linux_amd64_def index_str_def EncodeOsNameMap_def EncodeArchNameMap_def MethodGet_def
      StatusOK_def)

text \<open>
  Claim C3, amended: \<open>addHeader\<close> attaches the \<open>x-cd-os\<close> header, with the value
  \<open><os>-<arch>-<distribution>\<close>, whatever \<open>sendClientInfo\<close> and the context are, and every
  request that \<open>Resolve\<close> sends carries it.
\<close>

theorem os_header_always_attached:
  "fst (addHeader pf ctx h sci) dohOsHeader = Some (dohOsHeaderValue pf) \<and>
   dohOsHeaderValue pf =
     index_str EncodeOsNameMap (GOOS pf) @ ''-'' @ index_str EncodeArchNameMap (GOARCH pf) @ ''-'' @ Dist pf \<and>
   (\<forall>t rq. HttpDo t rq \<in> set (snd (Resolve pf w r ctx m)) \<longrightarrow>
      Header rq dohOsHeader = Some (dohOsHeaderValue pf))"
  using Resolve_trace [of _ _ pf w r ctx m] addHeader_os [of pf ctx h sci] dohOsHeaderValue_eq [of pf]
  by blast

text \<open>
  Claim C5 says that a 2xx status yields the unpacked answer. Status 204 is a 2xx status
  and yields the error that carries status and body.
\<close>

theorem status_counterexample:
  "fst (Resolve linux_amd64 (sample_world 204)
          \<lparr>endpoint = ''https://dns.example/q'', isDoH3 = False, sendClientInfo = False\<rparr>
          None (loopTestMsg ''u1''))
     = Inl (WrongResponse ''body'' 204) \<and> (200::int) \<le> 204 \<and> (204::int) < 300"
  by (simp add: Resolve_def sample_world_def loopTestMsg_def SetQuestion_def Fqdn_def IsFqdn_def
      loopTestDomain_def MethodGet_def
      StatusOK_def)

text \<open>
  Claim C5, amended: when the round trip of a \<open>Resolve\<close> call completes and the body
  of the response is read, the result is the error carrying the body and the status
  exactly when the status is not 200; on status 200 the body is unpacked, and the answer
  is returned when unpacking succeeds.
\<close>

theorem status_not_200_is_error:
  assumes tr: "snd (Resolve pf w r ctx m) = HttpDo t rq # es"
    and "Do w t rq = Inr resp"
    and "Body resp = Inr buf"
  shows "fst (Resolve pf w r ctx m) =
           (if StatusCode resp \<noteq> 200 then Inl (WrongResponse buf (StatusCode resp))
            else case Unpack w buf of
                   Inl err \<Rightarrow> Inl (UnpackFailed err)
                 | Inr answer \<Rightarrow> Inr answer)"
proof (cases "Pack w m")
  case (Inl err)
  with tr show ?thesis by (simp add: Resolve_def)
next
  case (Inr data)
  note pack = this
  define url where "url = endpointWithQuery w (endpoint r) (EncodeToString w data)"
  show ?thesis
  proof (cases "NewRequestWithContext w MethodGet url")
    case (Inl err)
    with tr pack show ?thesis by (simp add: Resolve_def url_def)
  next
    case (Inr req0)
    note new = this
    define req where
      "req = req0\<lparr>Header := fst (addHeader pf ctx (Header req0) (sendClientInfo r))\<rparr>"
    define transport where
      "transport = (if isDoH3 r
          then doh3Transport w (if length (Question m) > 0 then Qtype (hd (Question m)) else 0)
          else Some (dohTransport w (if length (Question m) > 0 then Qtype (hd (Question m)) else 0)))"
    have unfold: "Resolve pf w r ctx m =
      (case transport of
         None \<Rightarrow> (Inl DoH3NotSupported, [])
       | Some t \<Rightarrow>
          (case Do w t req of
             Inl err \<Rightarrow>
               (Inl (CouldNotPerformRequest err),
                HttpDo t req # (if isDoH3 r \<and> isCloser w t then [TransportClose t] else []))
           | Inr resp \<Rightarrow>
               (case Body resp of
                  Inl err \<Rightarrow> (Inl (CouldNotReadMessage err), [HttpDo t req])
                | Inr buf \<Rightarrow>
                    if StatusCode resp \<noteq> StatusOK
                    then (Inl (WrongResponse buf (StatusCode resp)), [HttpDo t req])
                    else (case Unpack w buf of
                            Inl err \<Rightarrow> (Inl (UnpackFailed err), [HttpDo t req])
                          | Inr answer \<Rightarrow> (Inr answer, [HttpDo t req])))))"
      using pack new unfolding Resolve_def url_def req_def transport_def Let_def by simp
    show ?thesis
    proof (cases transport)
      case None
      with tr unfold show ?thesis by simp
    next
      case (Some t')
      have "snd (Resolve pf w r ctx m) = HttpDo t' req # tl (snd (Resolve pf w r ctx m))"
        unfolding unfold Some by (simp split: sum.splits)
      with tr have eq: "t' = t" "req = rq" by simp_all
      show ?thesis
        unfolding unfold Some using assms(2,3) eq
        by (simp add: StatusOK_def split: sum.splits)
    qed
  qed
qed

text \<open>
  Claim C8: for a DoH3 resolver whose transport for the type of the query is nil, and a
  query that packs and for which the request is built (the resolver is handed a parsed
  query and the endpoint of an initialised upstream), \<open>Resolve\<close> fails with the
  transport-unavailable error and performs no HTTP request. Beyond that: whatever the
  query, no HTTP request is performed, and when packing or the construction of the
  request fails, \<open>Resolve\<close> returns that error.
\<close>

theorem doh3_unavailable:
  assumes "isDoH3 r"
    and "doh3Transport w (if length (Question m) > 0 then Qtype (hd (Question m)) else 0) = None"
  shows "(\<forall>data req0. Pack w m = Inr data \<and>
             NewRequestWithContext w MethodGet (endpointWithQuery w (endpoint r) (EncodeToString w data)) = Inr req0
             \<longrightarrow> Resolve pf w r ctx m = (Inl DoH3NotSupported, [])) \<and>
         snd (Resolve pf w r ctx m) = [] \<and>
         (\<forall>err. Pack w m = Inl err \<longrightarrow> fst (Resolve pf w r ctx m) = Inl (PackFailed err)) \<and>
         (\<forall>data err. Pack w m = Inr data \<and>
             NewRequestWithContext w MethodGet (endpointWithQuery w (endpoint r) (EncodeToString w data)) = Inl err
             \<longrightarrow> fst (Resolve pf w r ctx m) = Inl (CouldNotCreateRequest err))"
proof (intro conjI allI impI)
  fix data req0
  assume "Pack w m = Inr data \<and>
    NewRequestWithContext w MethodGet (endpointWithQuery w (endpoint r) (EncodeToString w data)) = Inr req0"
  then show "Resolve pf w r ctx m = (Inl DoH3NotSupported, [])"
    using assms by (simp add: Resolve_def Let_def)
next
  show "snd (Resolve pf w r ctx m) = []"
    using assms by (auto simp: Resolve_def Let_def split: sum.splits)
next
  fix err
  assume "Pack w m = Inl err"
  then show "fst (Resolve pf w r ctx m) = Inl (PackFailed err)"
    by (simp add: Resolve_def)
next
  fix data err
  assume "Pack w m = Inr data \<and>
    NewRequestWithContext w MethodGet (endpointWithQuery w (endpoint r) (EncodeToString w data)) = Inl err"
  then show "fst (Resolve pf w r ctx m) = Inl (CouldNotCreateRequest err)"
    by (simp add: Resolve_def Let_def)
qed

theorem os_header_always_attached_witness:
  "HttpDo 1 \<lparr>Method = ''GET'', URL = ''https://dns.example/q?dns=wire'',
      Header = [''Content-Type'' \<mapsto> ''application/dns-message'',
                ''Accept'' \<mapsto> ''application/dns-message'',
                ''x-cd-os'' \<mapsto> ''3-1-debian'',
                ''x-cd-mac'' \<mapsto> ''aa:bb:cc:dd:ee:ff'']\<rparr>
     \<in> set (snd (Resolve linux_amd64 (sample_world 200)
          \<lparr>endpoint = ''https://dns.example/q'', isDoH3 = False, sendClientInfo = True\<rparr>
          (Some \<lparr>Mac = ''aa:bb:cc:dd:ee:ff'', IP = [], Hostname = [], Self = False\<rparr>)
          (loopTestMsg ''u1''))) \<and>
   Header \<lparr>Method = ''GET'', URL = ''https://dns.example/q?dns=wire'',
      Header = [''Content-Type'' \<mapsto> ''application/dns-message'',
                ''Accept'' \<mapsto> ''application/dns-message'',
                ''x-cd-os'' \<mapsto> ''3-1-debian'',
                ''x-cd-mac'' \<mapsto> ''aa:bb:cc:dd:ee:ff'']\<rparr> dohOsHeader
     = Some (dohOsHeaderValue linux_amd64)"
  using os_header_always_attached
    [of linux_amd64 "Some \<lparr>Mac = ''aa:bb:cc:dd:ee:ff'', IP = [], Hostname = [], Self = False\<rparr>"
        Map.empty False "sample_world 200"
        "\<lparr>endpoint = ''https://dns.example/q'', isDoH3 = False, sendClientInfo = True\<rparr>"
        "loopTestMsg ''u1''"]
  by (simp add: Resolve_def sample_world_def loopTestMsg_def SetQuestion_def Fqdn_def IsFqdn_def
      loopTestDomain_def addHeader_def
      Header_Set_def dohOsHeader_def dohMacHeader_def dohIPHeader_def dohHostHeader_def
      headerApplicationDNS_def dohOsHeaderValue_def
      linux_amd64_def index_str_def EncodeOsNameMap_def EncodeArchNameMap_def MethodGet_def
      StatusOK_def)

theorem status_not_200_is_error_witness:
  "snd (Resolve linux_amd64 (sample_world 404)
          \<lparr>endpoint = ''https://dns.example/q'', isDoH3 = False, sendClientInfo = False\<rparr>
          None (loopTestMsg ''u1''))
     = [HttpDo 1 \<lparr>Method = ''GET'', URL = ''https://dns.example/q?dns=wire'',
          Header = [''Content-Type'' \<mapsto> ''application/dns-message'',
                    ''Accept'' \<mapsto> ''application/dns-message'',
                    ''x-cd-os'' \<mapsto> ''3-1-debian'']\<rparr>] \<and>
   fst (Resolve linux_amd64 (sample_world 404)
          \<lparr>endpoint = ''https://dns.example/q'', isDoH3 = False, sendClientInfo = False\<rparr>
          None (loopTestMsg ''u1''))
     = Inl (WrongResponse ''body'' 404) \<and>
   fst (Resolve linux_amd64 (sample_world 200)
          \<lparr>endpoint = ''https://dns.example/q'', isDoH3 = False, sendClientInfo = False\<rparr>
          None (loopTestMsg ''u1''))
     = Inr \<lparr>Question = []\<rparr>"
proof -
  let ?r = "\<lparr>endpoint = ''https://dns.example/q'', isDoH3 = False, sendClientInfo = False\<rparr>"
  let ?rq = "\<lparr>Method = ''GET'', URL = ''https://dns.example/q?dns=wire'',
          Header = [''Content-Type'' \<mapsto> ''application/dns-message'',
                    ''Accept'' \<mapsto> ''application/dns-message'',
                    ''x-cd-os'' \<mapsto> ''3-1-debian'']\<rparr>"
  have tr: "snd (Resolve linux_amd64 (sample_world st) ?r None (loopTestMsg ''u1'')) = HttpDo 1 ?rq # []"
    for st
    by (simp add: Resolve_def sample_world_def loopTestMsg_def SetQuestion_def Fqdn_def IsFqdn_def
      loopTestDomain_def addHeader_def
      Header_Set_def dohOsHeader_def headerApplicationDNS_def dohOsHeaderValue_def
      linux_amd64_def index_str_def EncodeOsNameMap_def EncodeArchNameMap_def MethodGet_def
      StatusOK_def Let_def)
  have do: "Do (sample_world st) 1 ?rq = Inr \<lparr>StatusCode = st, Body = Inr ''body''\<rparr>" for st
    by (simp add: sample_world_def)
  have body: "Body \<lparr>StatusCode = st, Body = Inr ''body''\<rparr> = Inr ''body''" for st :: int
    by simp
  show ?thesis
    using status_not_200_is_error [OF tr do body, of 404]
      status_not_200_is_error [OF tr do body, of 200] tr [of 404]
    by (simp add: sample_world_def)
qed

theorem doh3_unavailable_witness:
  "isDoH3 \<lparr>endpoint = ''https://dns.example/q'', isDoH3 = True, sendClientInfo = False\<rparr> \<and>
   Qtype (hd (Question (loopTestMsg ''u1''))) = TypeTXT \<and>
   doh3Transport (sample_world 200) TypeTXT = None \<and>
   Pack (sample_world 200) (loopTestMsg ''u1'') = Inr ''wire'' \<and>
   Resolve linux_amd64 (sample_world 200)
          \<lparr>endpoint = ''https://dns.example/q'', isDoH3 = True, sendClientInfo = False\<rparr>
          None (loopTestMsg ''u1'')
     = (Inl DoH3NotSupported, [])"
proof -
  let ?r = "\<lparr>endpoint = ''https://dns.example/q'', isDoH3 = True, sendClientInfo = False\<rparr>"
  have a: "isDoH3 ?r" by simp
  have q: "Qtype (hd (Question (loopTestMsg ''u1''))) = TypeTXT"
    by (simp add: loopTestMsg_def SetQuestion_def loopTestQtype_def)
  have b: "doh3Transport (sample_world 200)
     (if length (Question (loopTestMsg ''u1'')) > 0 then Qtype (hd (Question (loopTestMsg ''u1''))) else 0) = None"
    by (simp add: sample_world_def)
  have c: "Pack (sample_world 200) (loopTestMsg ''u1'') = Inr ''wire''"
    by (simp add: sample_world_def loopTestMsg_def SetQuestion_def Fqdn_def IsFqdn_def
      loopTestDomain_def)
  have d: "NewRequestWithContext (sample_world 200) MethodGet
      (endpointWithQuery (sample_world 200) (endpoint ?r) (EncodeToString (sample_world 200) ''wire''))
       = Inr \<lparr>Method = ''GET'', URL = ''https://dns.example/q?dns=wire'', Header = Map.empty\<rparr>"
    by (simp add: sample_world_def MethodGet_def)
  from doh3_unavailable [OF a b, where pf = linux_amd64 and ctx = None] c d
  have "Resolve linux_amd64 (sample_world 200) ?r None (loopTestMsg ''u1'') = (Inl DoH3NotSupported, [])"
    by blast
  with q c show ?thesis
    by (simp add: sample_world_def)
qed

section \<open>Properties of the client info table\<close>

lemma lookupHostname_loop_first:
  "(\<exists>k < length rs.
      lookupHostname_loop byIP byMac rs ipv macv = source_hostname byIP byMac (rs ! k) ipv macv \<and>
      source_hostname byIP byMac (rs ! k) ipv macv \<noteq> [] \<and>
      (\<forall>j < k. source_hostname byIP byMac (rs ! j) ipv macv = [])) \<or>
   (lookupHostname_loop byIP byMac rs ipv macv = [] \<and>
      (\<forall>j < length rs. source_hostname byIP byMac (rs ! j) ipv macv = []))"
proof (induction rs)
  case Nil
  then show ?case by simp
next
  case (Cons r rs)
  show ?case
  proof (cases "source_hostname byIP byMac r ipv macv = []")
    case True
    then have loop: "lookupHostname_loop byIP byMac (r # rs) ipv macv =
        lookupHostname_loop byIP byMac rs ipv macv"
      by (simp add: source_hostname_def split: if_splits)
    from Cons.IH show ?thesis
    proof
      assume "\<exists>k < length rs.
        lookupHostname_loop byIP byMac rs ipv macv = source_hostname byIP byMac (rs ! k) ipv macv \<and>
        source_hostname byIP byMac (rs ! k) ipv macv \<noteq> [] \<and>
        (\<forall>j < k. source_hostname byIP byMac (rs ! j) ipv macv = [])"
      then obtain k where k: "k < length rs"
        "lookupHostname_loop byIP byMac rs ipv macv = source_hostname byIP byMac (rs ! k) ipv macv"
        "source_hostname byIP byMac (rs ! k) ipv macv \<noteq> []"
        "\<forall>j < k. source_hostname byIP byMac (rs ! j) ipv macv = []"
        by blast
      have "\<forall>j < Suc k. source_hostname byIP byMac ((r # rs) ! j) ipv macv = []"
        using True k(4) by (auto simp: less_Suc_eq_0_disj)
      with k(1,2,3) loop have "Suc k < length (r # rs) \<and>
        lookupHostname_loop byIP byMac (r # rs) ipv macv = source_hostname byIP byMac ((r # rs) ! Suc k) ipv macv \<and>
        source_hostname byIP byMac ((r # rs) ! Suc k) ipv macv \<noteq> [] \<and>
        (\<forall>j < Suc k. source_hostname byIP byMac ((r # rs) ! j) ipv macv = [])"
        by simp
      then show ?thesis by blast
    next
      assume "lookupHostname_loop byIP byMac rs ipv macv = [] \<and>
        (\<forall>j < length rs. source_hostname byIP byMac (rs ! j) ipv macv = [])"
      with True loop show ?thesis
        by (auto simp: less_Suc_eq_0_disj)
    qed
  next
    case False
    then have "lookupHostname_loop byIP byMac (r # rs) ipv macv = source_hostname byIP byMac r ipv macv"
      by (auto simp: source_hostname_def split: if_splits)
    with False have "0 < length (r # rs) \<and>
        lookupHostname_loop byIP byMac (r # rs) ipv macv = source_hostname byIP byMac ((r # rs) ! 0) ipv macv \<and>
        source_hostname byIP byMac ((r # rs) ! 0) ipv macv \<noteq> [] \<and>
        (\<forall>j < 0. source_hostname byIP byMac ((r # rs) ! j) ipv macv = [])"
      by simp
    then show ?thesis by blast
  qed
qed

lemma Table_init_hostnameResolvers:
  "hostnameResolvers (Table_init cfg [] ok t) =
     hostnameResolvers t @
     (if (discoverDHCP cfg \<or> discoverARP cfg) \<and> ok Merlin then [Merlin] else []) @
     (if discoverHosts cfg \<and> ok HostsFile then [HostsFile] else []) @
     (if discoverDHCP cfg \<and> ok Dhcp then [Dhcp] else []) @
     (if discoverPTR cfg \<and> ok Ptr then [Ptr] else []) @
     (if discoverMDNS cfg \<and> ok Mdns then [Mdns] else []) @
     (if discoverDHCP cfg \<or> discoverARP cfg then [Vni] else [])"
proof -
  define t1 where "t1 = (if (discoverDHCP cfg \<or> discoverARP cfg) \<and> ok Merlin
                  then t\<lparr>hostnameResolvers := hostnameResolvers t @ [Merlin],
                         refreshers := refreshers t @ [Merlin]\<rparr>
                  else t)"
  define t2 where "t2 = (if discoverHosts cfg \<and> ok HostsFile
                  then t1\<lparr>hostnameResolvers := hostnameResolvers t1 @ [HostsFile],
                          refreshers := refreshers t1 @ [HostsFile]\<rparr>
                  else t1)"
  define t3 where "t3 = (if discoverDHCP cfg \<and> ok Dhcp
                  then t2\<lparr>ipResolvers := ipResolvers t2 @ [Dhcp],
                          macResolvers := macResolvers t2 @ [Dhcp],
                          hostnameResolvers := hostnameResolvers t2 @ [Dhcp]\<rparr>
                  else t2)"
  define t4 where "t4 = (if discoverARP cfg \<and> ok Arp
                  then t3\<lparr>ipResolvers := ipResolvers t3 @ [Arp],
                          macResolvers := macResolvers t3 @ [Arp],
                          refreshers := refreshers t3 @ [Arp]\<rparr>
                  else t3)"
  define t5 where "t5 = (if discoverPTR cfg \<and> ok Ptr
                  then t4\<lparr>hostnameResolvers := hostnameResolvers t4 @ [Ptr],
                          refreshers := refreshers t4 @ [Ptr]\<rparr>
                  else t4)"
  define t6 where "t6 = (if discoverMDNS cfg \<and> ok Mdns
                  then t5\<lparr>hostnameResolvers := hostnameResolvers t5 @ [Mdns]\<rparr>
                  else t5)"
  define t7 where "t7 = (if discoverDHCP cfg \<or> discoverARP cfg
                  then t6\<lparr>hostnameResolvers := hostnameResolvers t6 @ [Vni]\<rparr>
                  else t6)"
  have init: "Table_init cfg [] ok t = t7"
    unfolding Table_init_def Let_def t7_def t6_def t5_def t4_def t3_def t2_def t1_def
    by (simp only: simp_thms if_False)
  have h1: "hostnameResolvers t1 = hostnameResolvers t @
      (if (discoverDHCP cfg \<or> discoverARP cfg) \<and> ok Merlin then [Merlin] else [])"
    by (simp add: t1_def)
  have h2: "hostnameResolvers t2 = hostnameResolvers t1 @
      (if discoverHosts cfg \<and> ok HostsFile then [HostsFile] else [])"
    by (simp add: t2_def)
  have h3: "hostnameResolvers t3 = hostnameResolvers t2 @
      (if discoverDHCP cfg \<and> ok Dhcp then [Dhcp] else [])"
    by (simp add: t3_def)
  have h4: "hostnameResolvers t4 = hostnameResolvers t3"
    by (simp add: t4_def)
  have h5: "hostnameResolvers t5 = hostnameResolvers t4 @
      (if discoverPTR cfg \<and> ok Ptr then [Ptr] else [])"
    by (simp add: t5_def)
  have h6: "hostnameResolvers t6 = hostnameResolvers t5 @
      (if discoverMDNS cfg \<and> ok Mdns then [Mdns] else [])"
    by (simp add: t6_def)
  have h7: "hostnameResolvers t7 = hostnameResolvers t6 @
      (if discoverDHCP cfg \<or> discoverARP cfg then [Vni] else [])"
    by (simp add: t7_def)
  show ?thesis
    unfolding init h7 h6 h5 h4 h3 h2 h1 by (simp only: append_assoc)
qed

lemma Table_init_clientID:
  "clientID \<noteq> [] \<Longrightarrow> hostnameResolvers (Table_init cfg clientID ok t) = hostnameResolvers t @ [Dhcp]"
  by (simp add: Table_init_def)

text \<open>
  Claim C4 puts the hosts file first and the router-specific source last. With every
  source enabled and initialised, \<open>Table.init\<close> registers the Merlin custom clients first
  and no ARP source for host names, and \<open>LookupHostname\<close> returns the name that Merlin
  knows although the hosts file knows another.
\<close>

theorem lookup_order_counterexample:
  "hostnameResolvers (Table_init default_service [] all_ok NewTable)
     = [Merlin, HostsFile, Dhcp, Ptr, Mdns, Vni] \<and>
   sample_byIP HostsFile ''192.168.1.10'' = ''hosts-name'' \<and>
   sample_byIP Merlin ''192.168.1.10'' = ''custom-name'' \<and>
   LookupHostname sample_byIP sample_byMac (Table_init default_service [] all_ok NewTable)
     ''192.168.1.10'' ''aa:bb:cc:dd:ee:ff'' = ''custom-name'' \<and>
   ''custom-name'' \<noteq> ''hosts-name''"
  by (simp add: Table_init_def default_service_def all_ok_def NewTable_def discoverDHCP_def
      discoverARP_def discoverHosts_def discoverPTR_def discoverMDNS_def LookupHostname_def
      sample_byIP_def sample_byMac_def)

text \<open>
  Claim C4, amended: \<open>Table.init\<close> registers the host name sources in the order Merlin
  custom clients, hosts file, DHCP, PTR, mDNS, virtual network interfaces, each one when
  it is enabled (and, but for the last, initialised without error), and only the DHCP
  source when a custom client ID is present; the ARP source is never a host name source.
  \<open>LookupHostname\<close> returns what the earliest registered source answers that has a
  non-empty answer, asked by IP first and by MAC second, or the empty string if none has.
\<close>

theorem lookup_hostname_first_registered:
  "hostnameResolvers (Table_init cfg [] ok NewTable) =
     (if (discoverDHCP cfg \<or> discoverARP cfg) \<and> ok Merlin then [Merlin] else []) @
     (if discoverHosts cfg \<and> ok HostsFile then [HostsFile] else []) @
     (if discoverDHCP cfg \<and> ok Dhcp then [Dhcp] else []) @
     (if discoverPTR cfg \<and> ok Ptr then [Ptr] else []) @
     (if discoverMDNS cfg \<and> ok Mdns then [Mdns] else []) @
     (if discoverDHCP cfg \<or> discoverARP cfg then [Vni] else []) \<and>
   (clientID \<noteq> [] \<longrightarrow> hostnameResolvers (Table_init cfg clientID ok NewTable) = [Dhcp]) \<and>
   ((\<exists>k < length (hostnameResolvers t).
       LookupHostname byIP byMac t ipv macv =
         source_hostname byIP byMac (hostnameResolvers t ! k) ipv macv \<and>
       source_hostname byIP byMac (hostnameResolvers t ! k) ipv macv \<noteq> [] \<and>
       (\<forall>j < k. source_hostname byIP byMac (hostnameResolvers t ! j) ipv macv = [])) \<or>
    (LookupHostname byIP byMac t ipv macv = [] \<and>
       (\<forall>j < length (hostnameResolvers t).
          source_hostname byIP byMac (hostnameResolvers t ! j) ipv macv = [])))"
proof -
  have a: "hostnameResolvers (Table_init cfg [] ok NewTable) =
     (if (discoverDHCP cfg \<or> discoverARP cfg) \<and> ok Merlin then [Merlin] else []) @
     (if discoverHosts cfg \<and> ok HostsFile then [HostsFile] else []) @
     (if discoverDHCP cfg \<and> ok Dhcp then [Dhcp] else []) @
     (if discoverPTR cfg \<and> ok Ptr then [Ptr] else []) @
     (if discoverMDNS cfg \<and> ok Mdns then [Mdns] else []) @
     (if discoverDHCP cfg \<or> discoverARP cfg then [Vni] else [])"
    unfolding Table_init_hostnameResolvers by (simp add: NewTable_def)
  have b: "clientID \<noteq> [] \<longrightarrow> hostnameResolvers (Table_init cfg clientID ok NewTable) = [Dhcp]"
    by (simp add: Table_init_clientID NewTable_def)
  from a b lookupHostname_loop_first [of "hostnameResolvers t" byIP byMac ipv macv]
  show ?thesis
    unfolding LookupHostname_def by blast
qed

theorem lookup_hostname_first_registered_witness:
  "''client1'' \<noteq> [] \<and>
   hostnameResolvers (Table_init default_service ''client1'' all_ok NewTable) = [Dhcp] \<and>
   hostnameResolvers (Table_init default_service [] all_ok NewTable)
     = [Merlin, HostsFile, Dhcp, Ptr, Mdns, Vni] \<and>
   (0::nat) < length (hostnameResolvers (Table_init default_service [] all_ok NewTable)) \<and>
   LookupHostname sample_byIP sample_byMac (Table_init default_service [] all_ok NewTable)
     ''192.168.1.10'' ''aa:bb:cc:dd:ee:ff''
     = source_hostname sample_byIP sample_byMac
         (hostnameResolvers (Table_init default_service [] all_ok NewTable) ! 0)
         ''192.168.1.10'' ''aa:bb:cc:dd:ee:ff''"
  using lookup_hostname_first_registered
    [of default_service all_ok "''client1''" "Table_init default_service [] all_ok NewTable"
        sample_byIP sample_byMac "''192.168.1.10''" "''aa:bb:cc:dd:ee:ff''"]
  by (simp add: Table_init_def default_service_def all_ok_def NewTable_def discoverDHCP_def
      discoverARP_def discoverHosts_def discoverPTR_def discoverMDNS_def LookupHostname_def
      sample_byIP_def sample_byMac_def source_hostname_def)

section \<open>Properties of the lease file readers\<close>

lemma Index_char_found:
  "c \<notin> set a \<Longrightarrow> Index (a @ c # b) [c] = Some (length a)"
  by (induction a) (auto simp: HasPrefix_def)

lemma Index_char_none:
  "c \<notin> set s \<Longrightarrow> Index s [c] = None"
  by (induction s) (auto simp: HasPrefix_def)

lemma Cut_char_found:
  "c \<notin> set a \<Longrightarrow> Cut (a @ c # b) [c] = (a, b, True)"
  by (simp add: Cut_def Index_char_found)

lemma Cut_char_none:
  "c \<notin> set s \<Longrightarrow> Cut s [c] = (s, [], False)"
  by (simp add: Cut_def Index_char_none)

lemma normalizeIP_suffix:
  "CHR ''%'' \<notin> set ipv \<Longrightarrow> normalizeIP (ipv @ ''%'' @ iface) = ipv"
  using Cut_char_found [of "CHR ''%''" ipv iface] by (simp add: normalizeIP_def)

lemma normalizeIP_plain:
  "CHR ''%'' \<notin> set ipv \<Longrightarrow> normalizeIP ipv = ipv"
  using Cut_char_none [of "CHR ''%''" ipv] by (simp add: normalizeIP_def)

lemma normalizeHostname_first_label:
  "normalizeHostname name = takeWhile (\<lambda>c. c \<noteq> CHR ''.'') name"
proof (cases "CHR ''.'' \<in> set name")
  case True
  then obtain a b where ab: "name = a @ CHR ''.'' # b" "CHR ''.'' \<notin> set a"
    by (meson split_list_first)
  then have tw: "takeWhile (\<lambda>c. c \<noteq> CHR ''.'') name = a"
    by (auto simp: takeWhile_tail)
  show ?thesis
    using Cut_char_found [of "CHR ''.''" a b] ab(2) unfolding tw by (simp add: normalizeHostname_def ab(1))
next
  case False
  then have tw: "takeWhile (\<lambda>c. c \<noteq> CHR ''.'') name = name"
    by (auto simp: takeWhile_eq_all_conv)
  show ?thesis
    using Cut_char_none [of "CHR ''.''" name] False by (simp add: normalizeHostname_def tw)
qed

lemma dnsmasq_line_stores:
  assumes "Fields line = f0 # macv # ipf # hostname # rest"
    and "ParseMAC_ok lib macv"
    and "ParseIP_ok lib (normalizeIP ipf)"
  shows "dnsmasq_line lib d line =
           (if hostname = ''*''
            then d\<lparr>ip := (ip d)(macv \<mapsto> normalizeIP ipf), mac := (mac d)(normalizeIP ipf \<mapsto> macv)\<rparr>
            else d\<lparr>mac2name := (mac2name d)(macv \<mapsto> normalizeHostname hostname),
                   ip2name := (ip2name d)(normalizeIP ipf \<mapsto> normalizeHostname hostname),
                   ip := (ip d)(macv \<mapsto> normalizeIP ipf),
                   mac := (mac d)(normalizeIP ipf \<mapsto> macv)\<rparr>)"
  using assms by (simp add: dnsmasq_line_def Let_def)

lemma dnsmasq_line_star:
  assumes "4 \<le> length (Fields line)" and "Fields line ! 3 = ''*''"
  shows "mac2name (dnsmasq_line lib d line) = mac2name d \<and>
         ip2name (dnsmasq_line lib d line) = ip2name d"
  using assms by (simp add: dnsmasq_line_def Let_def)

lemma Fields_sample_line:
  "Fields ''1700000000 aa:bb:cc:dd:ee:ff 192.168.1.10%eth0 host1 *'' =
     [''1700000000'', ''aa:bb:cc:dd:ee:ff'', ''192.168.1.10%eth0'', ''host1'', ''*'']"
  by (simp add: Fields_def space_width_def asciiSpace_def flush_def)

text \<open>
  Claim C7: for a dnsmasq lease line (at least four fields, a MAC that parses) whose IP
  field is an address that parses followed by \<open>%iface\<close>, the address is stored without
  the suffix in the MAC-to-IP and the IP-to-MAC table, and the host name tables receive
  the normalised host name under the same keys; a line whose host name field is \<open>*\<close>
  leaves both host name tables as they were; and the line
  \<open>1700000000 aa:bb:cc:dd:ee:ff 192.168.1.10%eth0 host1 *\<close> stores the IP 192.168.1.10
  and the host name host1 for the MAC aa:bb:cc:dd:ee:ff (the MAC and the IP of this line
  are accepted by \<open>net.ParseMAC\<close> and \<open>net.ParseIP\<close>, which the model takes as
  parameters).
\<close>

theorem dnsmasq_line_strips_iface:
  "(Fields line = f0 # macv # (ipv @ ''%'' @ iface) # hostname # rest \<and>
    ParseMAC_ok lib macv \<and> CHR ''%'' \<notin> set ipv \<and> ParseIP_ok lib ipv \<longrightarrow>
      mac (dnsmasq_line lib d line) = (mac d)(ipv \<mapsto> macv) \<and>
      ip (dnsmasq_line lib d line) = (ip d)(macv \<mapsto> ipv) \<and>
      (hostname \<noteq> ''*'' \<longrightarrow>
         mac2name (dnsmasq_line lib d line) = (mac2name d)(macv \<mapsto> normalizeHostname hostname) \<and>
         ip2name (dnsmasq_line lib d line) = (ip2name d)(ipv \<mapsto> normalizeHostname hostname))) \<and>
   (4 \<le> length (Fields line) \<and> Fields line ! 3 = ''*'' \<longrightarrow>
      mac2name (dnsmasq_line lib d line) = mac2name d \<and>
      ip2name (dnsmasq_line lib d line) = ip2name d) \<and>
   (ParseMAC_ok lib ''aa:bb:cc:dd:ee:ff'' \<and> ParseIP_ok lib ''192.168.1.10'' \<longrightarrow>
      dnsmasq_line lib d ''1700000000 aa:bb:cc:dd:ee:ff 192.168.1.10%eth0 host1 *'' =
        d\<lparr>mac2name := (mac2name d)(''aa:bb:cc:dd:ee:ff'' \<mapsto> ''host1''),
          ip2name := (ip2name d)(''192.168.1.10'' \<mapsto> ''host1''),
          ip := (ip d)(''aa:bb:cc:dd:ee:ff'' \<mapsto> ''192.168.1.10''),
          mac := (mac d)(''192.168.1.10'' \<mapsto> ''aa:bb:cc:dd:ee:ff'')\<rparr>)"
proof (intro conjI impI)
  assume a: "Fields line = f0 # macv # (ipv @ ''%'' @ iface) # hostname # rest \<and>
    ParseMAC_ok lib macv \<and> CHR ''%'' \<notin> set ipv \<and> ParseIP_ok lib ipv"
  then have n: "normalizeIP (ipv @ ''%'' @ iface) = ipv"
    using normalizeIP_suffix [of ipv iface] by blast
  have st: "dnsmasq_line lib d line =
           (if hostname = ''*''
            then d\<lparr>ip := (ip d)(macv \<mapsto> ipv), mac := (mac d)(ipv \<mapsto> macv)\<rparr>
            else d\<lparr>mac2name := (mac2name d)(macv \<mapsto> normalizeHostname hostname),
                   ip2name := (ip2name d)(ipv \<mapsto> normalizeHostname hostname),
                   ip := (ip d)(macv \<mapsto> ipv),
                   mac := (mac d)(ipv \<mapsto> macv)\<rparr>)"
    using dnsmasq_line_stores [of line f0 macv "ipv @ ''%'' @ iface" hostname rest lib d] a
    unfolding n by blast
  show "mac (dnsmasq_line lib d line) = (mac d)(ipv \<mapsto> macv)"
    by (simp add: st)
  show "ip (dnsmasq_line lib d line) = (ip d)(macv \<mapsto> ipv)"
    by (simp add: st)
  show "mac2name (dnsmasq_line lib d line) = (mac2name d)(macv \<mapsto> normalizeHostname hostname)"
    if "hostname \<noteq> ''*''"
    using that by (simp add: st)
  show "ip2name (dnsmasq_line lib d line) = (ip2name d)(ipv \<mapsto> normalizeHostname hostname)"
    if "hostname \<noteq> ''*''"
    using that by (simp add: st)
next
  assume "4 \<le> length (Fields line) \<and> Fields line ! 3 = ''*''"
  then show "mac2name (dnsmasq_line lib d line) = mac2name d"
    and "ip2name (dnsmasq_line lib d line) = ip2name d"
    using dnsmasq_line_star [of line lib d] by simp_all
next
  assume a: "ParseMAC_ok lib ''aa:bb:cc:dd:ee:ff'' \<and> ParseIP_ok lib ''192.168.1.10''"
  have n: "normalizeIP ''192.168.1.10%eth0'' = ''192.168.1.10''"
    using normalizeIP_suffix [of "''192.168.1.10''" "''eth0''"] by simp
  have h: "normalizeHostname ''host1'' = ''host1''"
    by (simp add: normalizeHostname_first_label)
  show "dnsmasq_line lib d ''1700000000 aa:bb:cc:dd:ee:ff 192.168.1.10%eth0 host1 *'' =
        d\<lparr>mac2name := (mac2name d)(''aa:bb:cc:dd:ee:ff'' \<mapsto> ''host1''),
          ip2name := (ip2name d)(''192.168.1.10'' \<mapsto> ''host1''),
          ip := (ip d)(''aa:bb:cc:dd:ee:ff'' \<mapsto> ''192.168.1.10''),
          mac := (mac d)(''192.168.1.10'' \<mapsto> ''aa:bb:cc:dd:ee:ff'')\<rparr>"
    using dnsmasq_line_stores [OF Fields_sample_line, of lib d] a
    unfolding n h by simp
qed

theorem dnsmasq_line_strips_iface_witness:
  "ParseMAC_ok sample_lib ''aa:bb:cc:dd:ee:ff'' \<and> ParseIP_ok sample_lib ''192.168.1.10'' \<and>
   dnsmasq_line sample_lib empty_dhcp ''1700000000 aa:bb:cc:dd:ee:ff 192.168.1.10%eth0 host1 *'' =
     \<lparr>mac2name = [''aa:bb:cc:dd:ee:ff'' \<mapsto> ''host1''],
      ip2name = [''192.168.1.10'' \<mapsto> ''host1''],
      ip = [''aa:bb:cc:dd:ee:ff'' \<mapsto> ''192.168.1.10''],
      mac = [''192.168.1.10'' \<mapsto> ''aa:bb:cc:dd:ee:ff'']\<rparr> \<and>
   Fields ''1700000001 aa:bb:cc:dd:ee:01 fe80::1%br0 * 01:aa'' =
     [''1700000001'', ''aa:bb:cc:dd:ee:01'', ''fe80::1%br0'', ''*'', ''01:aa''] \<and>
   ip2name (dnsmasq_line sample_lib empty_dhcp ''1700000001 aa:bb:cc:dd:ee:01 fe80::1%br0 * 01:aa'')
     = Map.empty"
proof -
  have mac_ok: "ParseMAC_ok sample_lib ''aa:bb:cc:dd:ee:ff''"
    by (simp add: sample_lib_def is_hex_def)
  have ip_ok: "ParseIP_ok sample_lib ''192.168.1.10''"
    by (simp add: sample_lib_def is_digit_def)
  have f: "Fields ''1700000001 aa:bb:cc:dd:ee:01 fe80::1%br0 * 01:aa'' =
     [''1700000001'', ''aa:bb:cc:dd:ee:01'', ''fe80::1%br0'', ''*'', ''01:aa'']"
    by (simp add: Fields_def space_width_def asciiSpace_def flush_def)
  show ?thesis
    using dnsmasq_line_strips_iface
      [of "''1700000001 aa:bb:cc:dd:ee:01 fe80::1%br0 * 01:aa''" "''1700000001''"
          "''aa:bb:cc:dd:ee:01''" "''fe80::1''" "''br0''" "''*''" "[''01:aa'']" sample_lib empty_dhcp]
      dnsmasq_line_strips_iface
      [of "''1700000000 aa:bb:cc:dd:ee:ff 192.168.1.10%eth0 host1 *''" "''1700000000''"
          "''aa:bb:cc:dd:ee:ff''" "''192.168.1.10''" "''eth0''" "''host1''" "[''*'']" sample_lib empty_dhcp]
      mac_ok ip_ok f
    by (simp add: empty_dhcp_def)
qed

text \<open>
  Claim C6 says that the host name is normalised to its first label in both host name
  tables, for both lease file formats. The ISC reader stores the normalised name under
  the MAC and the host name as read under the IP: for a lease block with the client host
  name \<open>host1.lan\<close> the IP-to-name table holds \<open>host1.lan\<close>.
\<close>

theorem isc_ip2name_keeps_suffix:
  "mac2name (iscDHCPReadClientInfoReader sample_lib empty_dhcp sample_isc_lease) ''aa:bb:cc:dd:ee:ff''
     = Some ''host1'' \<and>
   ip2name (iscDHCPReadClientInfoReader sample_lib empty_dhcp sample_isc_lease) ''192.168.1.10''
     = Some ''host1.lan'' \<and>
   dhcp_LookupHostnameByMac (iscDHCPReadClientInfoReader sample_lib empty_dhcp sample_isc_lease)
     ''aa:bb:cc:dd:ee:ff'' = ''host1'' \<and>
   dhcp_LookupHostnameByIP (iscDHCPReadClientInfoReader sample_lib empty_dhcp sample_isc_lease)
     ''192.168.1.10'' = ''host1.lan'' \<and>
   normalizeHostname ''host1.lan'' = ''host1''"
proof -
  have f1: "Fields ''lease 192.168.1.10 {'' = [''lease'', ''192.168.1.10'', ''{'']"
    by (simp add: Fields_def space_width_def asciiSpace_def flush_def)
  have f2: "Fields ''  hardware ethernet aa:bb:cc:dd:ee:ff;'' =
      [''hardware'', ''ethernet'', ''aa:bb:cc:dd:ee:ff;'']"
    by (simp add: Fields_def space_width_def asciiSpace_def flush_def)
  have f3: "Fields (''  client-hostname '' @ [CHR 0x22] @ ''host1.lan'' @ [CHR 0x22] @ '';'') =
      [''client-hostname'', [CHR 0x22] @ ''host1.lan'' @ [CHR 0x22] @ '';'']"
    by (simp add: Fields_def space_width_def asciiSpace_def flush_def)
  have n: "normalizeHostname ''host1.lan'' = ''host1''"
    by (simp add: normalizeHostname_first_label)
  have ni: "normalizeIP ''192.168.1.10'' = ''192.168.1.10''"
    by (simp add: normalizeIP_plain)
  have s1: "isc_line sample_lib (empty_dhcp, [], [], []) ''lease 192.168.1.10 {''
      = (empty_dhcp, ''192.168.1.10'', [], [])"
    by (simp add: f1 HasPrefix_def sample_lib_def ascii_lower_def is_digit_def ni)
  have s2: "isc_line sample_lib (empty_dhcp, ''192.168.1.10'', [], [])
        ''  hardware ethernet aa:bb:cc:dd:ee:ff;''
      = (empty_dhcp, ''192.168.1.10'', ''aa:bb:cc:dd:ee:ff'', [])"
    by (simp add: f2 HasPrefix_def sample_lib_def ascii_lower_def is_hex_def TrimRight_def)
  have s3: "isc_line sample_lib (empty_dhcp, ''192.168.1.10'', ''aa:bb:cc:dd:ee:ff'', [])
        (''  client-hostname '' @ [CHR 0x22] @ ''host1.lan'' @ [CHR 0x22] @ '';'')
      = (empty_dhcp, ''192.168.1.10'', ''aa:bb:cc:dd:ee:ff'', ''host1.lan'')"
    using f3 by (simp add: HasPrefix_def Trim_def TrimRight_def TrimLeft_def)
  have s4: "isc_line sample_lib (empty_dhcp, ''192.168.1.10'', ''aa:bb:cc:dd:ee:ff'', ''host1.lan'') ''}''
      = (empty_dhcp\<lparr>mac2name := [''aa:bb:cc:dd:ee:ff'' \<mapsto> ''host1''],
           ip2name := [''192.168.1.10'' \<mapsto> ''host1.lan''],
           ip := [''aa:bb:cc:dd:ee:ff'' \<mapsto> ''192.168.1.10''],
           mac := [''192.168.1.10'' \<mapsto> ''aa:bb:cc:dd:ee:ff'']\<rparr>, [], [], [])"
    by (simp add: HasPrefix_def n empty_dhcp_def)
  have "iscDHCPReadClientInfoReader sample_lib empty_dhcp sample_isc_lease =
      empty_dhcp\<lparr>mac2name := [''aa:bb:cc:dd:ee:ff'' \<mapsto> ''host1''],
           ip2name := [''192.168.1.10'' \<mapsto> ''host1.lan''],
           ip := [''aa:bb:cc:dd:ee:ff'' \<mapsto> ''192.168.1.10''],
           mac := [''192.168.1.10'' \<mapsto> ''aa:bb:cc:dd:ee:ff'']\<rparr>"
    unfolding iscDHCPReadClientInfoReader_def isc_run_def sample_isc_lease_def
    using s1 s2 s3 s4 by simp
  then show ?thesis
    by (simp add: n dhcp_LookupHostnameByIP_def dhcp_LookupHostnameByMac_def load_str_def)
qed

lemma isc_line_close:
  "HasPrefix cl ''}'' \<Longrightarrow>
   isc_line lib (d, ipv, macv, hostname) cl =
     (if hostname \<noteq> [] \<and> hostname \<noteq> ''*''
      then (d\<lparr>mac2name := (mac2name d)(macv \<mapsto> normalizeHostname hostname),
              ip2name := (ip2name d)(ipv \<mapsto> hostname),
              ip := (ip d)(macv \<mapsto> ipv),
              mac := (mac d)(ipv \<mapsto> macv)\<rparr>, [], [], [])
      else (d\<lparr>mac := (mac d)(ipv \<mapsto> macv), ip := (ip d)(macv \<mapsto> ipv)\<rparr>, ipv, macv, hostname))"
  by (simp add: Let_def)

lemma isc_line_decl:
  assumes "\<not> HasPrefix l ''}''" and "\<not> is_client_hostname l"
  shows "isc_line lib (d, ipv, macv, hostname) l =
           (d, if is_lease l then lease_ip lib l else ipv,
               if is_hardware l then hardware_mac lib l else macv, hostname)"
  using assms
  by (auto simp: Let_def is_lease_def is_hardware_def is_client_hostname_def
      lease_ip_def hardware_mac_def)

lemma block_ip_Nil: "block_ip lib c [] = c"
  by (simp add: block_ip_def)

lemma block_ip_Cons:
  "block_ip lib c (l # ls) = block_ip lib (if is_lease l then lease_ip lib l else c) ls"
  by (cases "rev (filter is_lease ls)") (simp_all add: block_ip_def)

lemma block_mac_Nil: "block_mac lib c [] = c"
  by (simp add: block_mac_def)

lemma block_mac_Cons:
  "block_mac lib c (l # ls) = block_mac lib (if is_hardware l then hardware_mac lib l else c) ls"
  by (cases "rev (filter is_hardware ls)") (simp_all add: block_mac_def)

lemma block_ip_last_lease:
  "is_lease l \<Longrightarrow> \<forall>l'\<in>set after. \<not> is_lease l' \<Longrightarrow>
     block_ip lib c (before @ l # after) = lease_ip lib l"
  by (simp add: block_ip_def filter_empty_conv [THEN iffD2])

lemma block_ip_carried:
  "\<forall>l\<in>set block. \<not> is_lease l \<Longrightarrow> block_ip lib c block = c"
  by (simp add: block_ip_def filter_empty_conv [THEN iffD2])

lemma block_mac_last_hardware:
  "is_hardware l \<Longrightarrow> \<forall>l'\<in>set after. \<not> is_hardware l' \<Longrightarrow>
     block_mac lib c (before @ l # after) = hardware_mac lib l"
  by (simp add: block_mac_def filter_empty_conv [THEN iffD2])

lemma block_mac_carried:
  "\<forall>l\<in>set block. \<not> is_hardware l \<Longrightarrow> block_mac lib c block = c"
  by (simp add: block_mac_def filter_empty_conv [THEN iffD2])

lemma isc_run_block:
  assumes "\<forall>l\<in>set block. \<not> HasPrefix l ''}'' \<and> \<not> is_client_hostname l"
  shows "isc_run lib (d, ipv, macv, hostname) block =
           (d, block_ip lib ipv block, block_mac lib macv block, hostname)"
  using assms
proof (induction block arbitrary: ipv macv)
  case Nil
  then show ?case by (simp add: isc_run_def block_ip_Nil block_mac_Nil)
next
  case (Cons l block)
  have step: "isc_line lib (d, ipv, macv, hostname) l =
           (d, if is_lease l then lease_ip lib l else ipv,
               if is_hardware l then hardware_mac lib l else macv, hostname)"
    using Cons.prems by (intro isc_line_decl) simp_all
  have "isc_run lib (d, ipv, macv, hostname) (l # block) =
        isc_run lib (isc_line lib (d, ipv, macv, hostname) l) block"
    by (simp add: isc_run_def)
  also have "\<dots> = (d, block_ip lib (if is_lease l then lease_ip lib l else ipv) block,
                       block_mac lib (if is_hardware l then hardware_mac lib l else macv) block,
                       hostname)"
    unfolding step using Cons.prems by (intro Cons.IH) simp
  finally show ?case
    by (simp only: block_ip_Cons [symmetric] block_mac_Cons [symmetric])
qed

lemma isc_run_append:
  "isc_run lib st (xs @ ys) = isc_run lib (isc_run lib st xs) ys"
  by (simp add: isc_run_def)

lemma isc_run_after_close:
  assumes "pre = [] \<or> HasPrefix (last pre) ''}''"
    and "isc_run lib (d0, [], [], []) pre = (d, ipv, macv, hostname)"
  shows "hostname = [] \<or> hostname = ''*''"
proof (cases "pre = []")
  case True
  with assms(2) show ?thesis by (simp add: isc_run_def)
next
  case False
  then have pre: "pre = butlast pre @ [last pre]" by simp
  obtain d1 i1 m1 h1 where st1: "isc_run lib (d0, [], [], []) (butlast pre) = (d1, i1, m1, h1)"
    by (metis prod_cases4)
  have "isc_run lib (d0, [], [], []) pre = isc_line lib (d1, i1, m1, h1) (last pre)"
    using isc_run_append [of lib "(d0, [], [], [])" "butlast pre" "[last pre]"] pre st1
    by (simp add: isc_run_def)
  moreover have "HasPrefix (last pre) ''}''"
    using assms(1) False by simp
  ultimately show ?thesis
    using assms(2) isc_line_close [of "last pre" lib d1 i1 m1 h1]
    by (auto split: if_splits)
qed

lemma isc_close_block:
  assumes "\<forall>l\<in>set block. \<not> HasPrefix l ''}'' \<and> \<not> is_client_hostname l"
    and "HasPrefix cl ''}''"
    and "hostname = [] \<or> hostname = ''*''"
  shows "isc_run lib (d, ipv, macv, hostname) (block @ [cl]) =
           (d\<lparr>mac := (mac d)(block_ip lib ipv block \<mapsto> block_mac lib macv block),
              ip := (ip d)(block_mac lib macv block \<mapsto> block_ip lib ipv block)\<rparr>,
            block_ip lib ipv block, block_mac lib macv block, hostname)"
proof -
  have "isc_run lib (d, ipv, macv, hostname) (block @ [cl]) =
        isc_line lib (d, block_ip lib ipv block, block_mac lib macv block, hostname) cl"
    unfolding isc_run_append isc_run_block [OF assms(1)] by (simp add: isc_run_def)
  also have "\<dots> = (d\<lparr>mac := (mac d)(block_ip lib ipv block \<mapsto> block_mac lib macv block),
              ip := (ip d)(block_mac lib macv block \<mapsto> block_ip lib ipv block)\<rparr>,
            block_ip lib ipv block, block_mac lib macv block, hostname)"
    using isc_line_close [OF assms(2), of lib d "block_ip lib ipv block" "block_mac lib macv block" hostname]
      assms(3) by auto
  finally show ?thesis .
qed

text \<open>
  Claim C10: in the ISC reader, take a block that starts at the beginning of the input or
  after a closing brace and contains no client-hostname declaration, followed by a second
  such block. At the closing brace of the first block the reader stores, in the MAC-to-IP
  and IP-to-MAC tables, the IP of the block (the address of its last lease declaration,
  or the IP carried into the block when it has none) and its MAC (likewise, from its
  hardware declarations); the variables \<open>ip\<close>, \<open>mac\<close> and \<open>hostname\<close> keep these
  values. The second block is read starting from them: its closing brace stores the
  values it declares and, for what it does not declare, the values of the first block.
  At a closing brace the variables are reset exactly when the host name is neither empty
  nor \<open>*\<close>, and at the start of such a block it is one of the two.
\<close>

theorem isc_block_without_hostname:
  assumes "pre = [] \<or> HasPrefix (last pre) ''}''"
    and "isc_run lib (d0, [], [], []) pre = (d, ipc, macc, hostname)"
    and "\<forall>l\<in>set block. \<not> HasPrefix l ''}'' \<and> \<not> is_client_hostname l"
    and "HasPrefix cl ''}''"
    and "\<forall>l\<in>set block2. \<not> HasPrefix l ''}'' \<and> \<not> is_client_hostname l"
    and "HasPrefix cl2 ''}''"
  shows "let ip1 = block_ip lib ipc block;
             mac1 = block_mac lib macc block;
             d1 = d\<lparr>mac := (mac d)(ip1 \<mapsto> mac1), ip := (ip d)(mac1 \<mapsto> ip1)\<rparr>;
             ip2 = block_ip lib ip1 block2;
             mac2 = block_mac lib mac1 block2;
             d2 = d1\<lparr>mac := (mac d1)(ip2 \<mapsto> mac2), ip := (ip d1)(mac2 \<mapsto> ip2)\<rparr>
         in isc_run lib (d0, [], [], []) (pre @ block @ [cl]) = (d1, ip1, mac1, hostname) \<and>
            isc_run lib (d0, [], [], []) (pre @ block @ [cl] @ block2 @ [cl2]) =
              (d2, ip2, mac2, hostname) \<and>
            ((\<forall>l\<in>set block2. \<not> is_lease l \<and> \<not> is_hardware l) \<longrightarrow> ip2 = ip1 \<and> mac2 = mac1) \<and>
            (\<forall>before l after. block = before @ l # after \<and> is_lease l \<and>
                (\<forall>l'\<in>set after. \<not> is_lease l') \<longrightarrow> ip1 = lease_ip lib l) \<and>
            (\<forall>before l after. block = before @ l # after \<and> is_hardware l \<and>
                (\<forall>l'\<in>set after. \<not> is_hardware l') \<longrightarrow> mac1 = hardware_mac lib l) \<and>
            ((\<forall>l\<in>set block. \<not> is_lease l) \<longrightarrow> ip1 = ipc) \<and>
            ((\<forall>l\<in>set block. \<not> is_hardware l) \<longrightarrow> mac1 = macc) \<and>
            (hostname = [] \<or> hostname = ''*'') \<and>
            (\<forall>d' i m h. snd (isc_line lib (d', i, m, h) cl) =
               (if h \<noteq> [] \<and> h \<noteq> ''*'' then ([], [], []) else (i, m, h)))"
proof -
  define ip1 where "ip1 = block_ip lib ipc block"
  define mac1 where "mac1 = block_mac lib macc block"
  define d1 where "d1 = d\<lparr>mac := (mac d)(ip1 \<mapsto> mac1), ip := (ip d)(mac1 \<mapsto> ip1)\<rparr>"
  define ip2 where "ip2 = block_ip lib ip1 block2"
  define mac2 where "mac2 = block_mac lib mac1 block2"
  define d2 where "d2 = d1\<lparr>mac := (mac d1)(ip2 \<mapsto> mac2), ip := (ip d1)(mac2 \<mapsto> ip2)\<rparr>"
  have h: "hostname = [] \<or> hostname = ''*''"
    using isc_run_after_close [OF assms(1,2)] .
  have r1: "isc_run lib (d0, [], [], []) (pre @ block @ [cl]) = (d1, ip1, mac1, hostname)"
    unfolding isc_run_append [of lib _ pre] assms(2) d1_def ip1_def mac1_def
    by (rule isc_close_block [OF assms(3,4) h])
  have "isc_run lib (d0, [], [], []) (pre @ block @ [cl] @ block2 @ [cl2]) =
        isc_run lib (isc_run lib (d0, [], [], []) (pre @ block @ [cl])) (block2 @ [cl2])"
    using isc_run_append [of lib "(d0, [], [], [])" "pre @ block @ [cl]" "block2 @ [cl2]"] by simp
  also have "\<dots> = (d2, ip2, mac2, hostname)"
    unfolding r1 d2_def ip2_def mac2_def by (rule isc_close_block [OF assms(5,6) h])
  finally have r2: "isc_run lib (d0, [], [], []) (pre @ block @ [cl] @ block2 @ [cl2]) =
      (d2, ip2, mac2, hostname)" .
  have keep: "(\<forall>l\<in>set block2. \<not> is_lease l \<and> \<not> is_hardware l) \<longrightarrow> ip2 = ip1 \<and> mac2 = mac1"
    by (simp add: ip2_def mac2_def block_ip_carried block_mac_carried)
  have parsed_ip: "\<forall>before l after. block = before @ l # after \<and> is_lease l \<and>
                (\<forall>l'\<in>set after. \<not> is_lease l') \<longrightarrow> ip1 = lease_ip lib l"
    using block_ip_last_lease [of _ _ lib ipc] by (auto simp: ip1_def)
  have parsed_mac: "\<forall>before l after. block = before @ l # after \<and> is_hardware l \<and>
                (\<forall>l'\<in>set after. \<not> is_hardware l') \<longrightarrow> mac1 = hardware_mac lib l"
    using block_mac_last_hardware [of _ _ lib macc] by (auto simp: mac1_def)
  have carried_ip: "(\<forall>l\<in>set block. \<not> is_lease l) \<longrightarrow> ip1 = ipc"
    by (simp add: ip1_def block_ip_carried)
  have carried_mac: "(\<forall>l\<in>set block. \<not> is_hardware l) \<longrightarrow> mac1 = macc"
    by (simp add: mac1_def block_mac_carried)
  have reset: "\<forall>d' i m h. snd (isc_line lib (d', i, m, h) cl) =
               (if h \<noteq> [] \<and> h \<noteq> ''*'' then ([], [], []) else (i, m, h))"
    using isc_line_close [OF assms(4), of lib] by simp
  from r1 r2 keep parsed_ip parsed_mac carried_ip carried_mac h reset show ?thesis
    unfolding Let_def ip1_def [symmetric] mac1_def [symmetric] d1_def [symmetric]
      ip2_def [symmetric] mac2_def [symmetric] d2_def [symmetric]
    by blast
qed

theorem isc_block_without_hostname_witness:
  "isc_run sample_lib (empty_dhcp, [], [], [])
     ([] @ [''lease 192.168.1.10 {'', ''  hardware ethernet aa:bb:cc:dd:ee:ff;''] @ [''}''])
     = (\<lparr>mac2name = Map.empty, ip2name = Map.empty,
         ip = [''aa:bb:cc:dd:ee:ff'' \<mapsto> ''192.168.1.10''],
         mac = [''192.168.1.10'' \<mapsto> ''aa:bb:cc:dd:ee:ff'']\<rparr>,
        ''192.168.1.10'', ''aa:bb:cc:dd:ee:ff'', []) \<and>
   isc_run sample_lib (empty_dhcp, [], [], [])
     ([] @ [''lease 192.168.1.10 {'', ''  hardware ethernet aa:bb:cc:dd:ee:ff;''] @ [''}''] @
      [''lease 192.168.1.11 {''] @ [''}''])
     = (\<lparr>mac2name = Map.empty, ip2name = Map.empty,
         ip = [''aa:bb:cc:dd:ee:ff'' \<mapsto> ''192.168.1.11''],
         mac = [''192.168.1.10'' \<mapsto> ''aa:bb:cc:dd:ee:ff'',
                ''192.168.1.11'' \<mapsto> ''aa:bb:cc:dd:ee:ff'']\<rparr>,
        ''192.168.1.11'', ''aa:bb:cc:dd:ee:ff'', [])"
proof -
  let ?l1 = "''lease 192.168.1.10 {''"
  let ?l2 = "''  hardware ethernet aa:bb:cc:dd:ee:ff;''"
  let ?l3 = "''lease 192.168.1.11 {''"
  have f1: "Fields ?l1 = [''lease'', ''192.168.1.10'', ''{'']"
    by (simp add: Fields_def space_width_def asciiSpace_def flush_def)
  have f2: "Fields ?l2 = [''hardware'', ''ethernet'', ''aa:bb:cc:dd:ee:ff;'']"
    by (simp add: Fields_def space_width_def asciiSpace_def flush_def)
  have f3: "Fields ?l3 = [''lease'', ''192.168.1.11'', ''{'']"
    by (simp add: Fields_def space_width_def asciiSpace_def flush_def)
  have n1: "normalizeIP ''192.168.1.10'' = ''192.168.1.10''"
    by (simp add: normalizeIP_plain)
  have n3: "normalizeIP ''192.168.1.11'' = ''192.168.1.11''"
    by (simp add: normalizeIP_plain)
  have kinds: "is_lease ?l1" "\<not> is_hardware ?l1" "\<not> is_lease ?l2" "is_hardware ?l2"
    "is_lease ?l3" "\<not> is_hardware ?l3"
    by (simp_all add: is_lease_def is_hardware_def f1 f2 f3)
  have ip1: "lease_ip sample_lib ?l1 = ''192.168.1.10''"
    by (simp add: lease_ip_def f1 sample_lib_def ascii_lower_def is_digit_def n1)
  have ip3: "lease_ip sample_lib ?l3 = ''192.168.1.11''"
    by (simp add: lease_ip_def f3 sample_lib_def ascii_lower_def is_digit_def n3)
  have mac2: "hardware_mac sample_lib ?l2 = ''aa:bb:cc:dd:ee:ff''"
    by (simp add: hardware_mac_def f2 sample_lib_def ascii_lower_def is_hex_def TrimRight_def)
  have bi1: "block_ip sample_lib [] [?l1, ?l2] = ''192.168.1.10''"
    by (simp add: block_ip_def kinds ip1)
  have bm1: "block_mac sample_lib [] [?l1, ?l2] = ''aa:bb:cc:dd:ee:ff''"
    by (simp add: block_mac_def kinds mac2)
  have bi2: "block_ip sample_lib ''192.168.1.10'' [?l3] = ''192.168.1.11''"
    by (simp add: block_ip_def kinds ip3)
  have bm2: "block_mac sample_lib ''aa:bb:cc:dd:ee:ff'' [?l3] = ''aa:bb:cc:dd:ee:ff''"
    by (simp add: block_mac_def kinds)
  have pre: "([] :: string list) = [] \<or> HasPrefix (last []) ''}''"
    by simp
  have start: "isc_run sample_lib (empty_dhcp, [], [], []) [] = (empty_dhcp, [], [], [])"
    by (simp add: isc_run_def)
  have blk: "\<forall>l\<in>set [?l1, ?l2]. \<not> HasPrefix l ''}'' \<and> \<not> is_client_hostname l"
    by (simp add: f1 f2 HasPrefix_def is_client_hostname_def)
  have blk2: "\<forall>l\<in>set [?l3]. \<not> HasPrefix l ''}'' \<and> \<not> is_client_hostname l"
    by (simp add: f3 HasPrefix_def is_client_hostname_def)
  have cl: "HasPrefix ''}'' ''}''"
    by (simp add: HasPrefix_def)
  show ?thesis
    using isc_block_without_hostname [OF pre start blk cl blk2 cl]
    unfolding Let_def bi1 bm1 bi2 bm2
    by (simp add: empty_dhcp_def)
qed

end
